theory Spec2Isabelle
  imports Main
begin

section \<open>Data model\<close>

text \<open>
  The views under \<open>app/api\<close> work on three tables of \<open>app.models\<close> (User, ApiKey,
  AccountActivation) through the SQLAlchemy session. A row is a record, a table is the
  list of its rows, and the session is modelled by two copies of the tables: \<open>live\<close> is
  what the request's session sees (its own uncommitted writes included) and \<open>committed\<close>
  is what \<open>Session.commit()\<close> has made durable. Timestamps (\<open>arrow\<close> values) are
  instants on one time axis, counted in microseconds.

  Python values that may be \<open>None\<close> are options; \<open>str | None\<close> is \<open>string option\<close>.
  Field names carry a prefix where two tables share a column name, or where the column
  name is a constant of HOL: \<open>User.id\<close> is \<open>uid\<close>, \<open>User.name\<close> is \<open>uname\<close>,
  \<open>ApiKey.id/user_id/code/name/times\<close> are \<open>kid\<close>, \<open>key_user_id\<close>, \<open>key_code\<close>,
  \<open>key_name\<close>, \<open>key_times\<close>, and \<open>AccountActivation.id/user_id/code\<close> are \<open>aid\<close>,
  \<open>act_user_id\<close>, \<open>act_code\<close>.
\<close>

type_synonym time = int

type_synonym pystr = "string option"

record user =
  uid :: int
  email :: string
  uname :: pystr
  activated :: bool
  disabled :: bool
  delete_on :: "time option"
  enable_otp :: bool
  otp_secret :: pystr

record api_key =
  kid :: int
  key_user_id :: int
  key_code :: string
  key_name :: pystr
  last_used :: "time option"
  key_times :: int
  sudo_mode_at :: "time option"

record account_activation =
  aid :: int
  act_user_id :: int
  act_code :: string
  tries :: int

record tables =
  users :: "user list"
  api_keys :: "api_key list"
  activations :: "account_activation list"

text \<open>What a handler does besides reading and writing the tables.\<close>

datatype login_action = Failed | Disabled_login | Scheduled_to_be_deleted | Not_activated | Success

datatype effect =
    LoginEvent login_action
  | SendEmail pystr string
  | AuditLogActivateUser int string
  | InvalidTotpLoginEmail int
  | LoginUser int

record store =
  live :: tables
  committed :: tables
  outbox :: "effect list"

datatype jval = JNull | JBool bool | JStr string

type_synonym json = "(string \<times> jval) list"

datatype py_error = AttributeError

datatype result = Response json nat | Exception py_error

text \<open>
  A request: the parsed JSON body (\<open>request.get_json()\<close>, its values strings), the
  \<open>Authentication\<close> header and flask-login's \<open>current_user\<close> (\<open>None\<close> for an anonymous
  session, whose \<open>is_authenticated\<close> is false).
\<close>

record request =
  body :: "(string \<times> string) list option"
  authentication :: pystr
  current_user :: "user option"

text \<open>\<open>flask.g\<close> as \<open>authorize_request\<close> leaves it on success.\<close>

record g_ctx =
  g_user :: user
  g_api_key :: "api_key option"

datatype gate = Denied json nat | Granted g_ctx | Raised py_error

text \<open>
  Functions and constants the views import from modules that are not among the sources
  (\<open>app.utils\<close>, \<open>app.models\<close>, \<open>itsdangerous\<close>, \<open>pyotp\<close>) and Python's \<open>int\<close> and
  \<open>str\<close>: parameters of the model. \<open>signer_unsign\<close> is \<open>None\<close> where \<open>Signer.unsign\<close>
  raises \<open>BadSignature\<close>, \<open>py_int\<close> is \<open>None\<close> where \<open>int\<close> raises \<open>ValueError\<close>;
  \<open>totp_verify secret token w\<close> is \<open>pyotp.TOTP(secret).verify(token, valid_window=w)\<close>
  at the time of the request; \<open>activation_tries\<close> is the default of the \<open>tries\<close> column.
\<close>

record env =
  sanitize_email :: "pystr \<Rightarrow> pystr"
  canonicalize_email :: "pystr \<Rightarrow> pystr"
  check_password :: "user \<Rightarrow> pystr \<Rightarrow> bool"
  fido_enabled :: "user \<Rightarrow> bool"
  is_active :: "user \<Rightarrow> bool"
  signer_sign :: "string \<Rightarrow> string"
  signer_unsign :: "pystr \<Rightarrow> string option"
  py_int :: "string \<Rightarrow> int option"
  py_str :: "int \<Rightarrow> string"
  totp_verify :: "pystr \<Rightarrow> pystr \<Rightarrow> nat \<Rightarrow> bool"
  activation_tries :: int

section \<open>The session and the model classes\<close>

text \<open>
  Modelled from the spec: the class methods of \<open>app.models\<close> (\<open>get\<close>, \<open>get_by\<close>,
  \<open>create\<close>, \<open>update\<close>, \<open>delete\<close>) and \<open>Session.commit\<close> are not among the sources.
  \<open>get_by\<close> is the first row that has the given column values, \<open>create\<close> appends a row
  with an unused id, an attribute write replaces the row of that id, \<open>delete\<close> removes
  it, and \<open>commit\<close> makes the session's tables the durable ones.
\<close>

definition Session_commit :: "store \<Rightarrow> store" where
  "Session_commit s = s\<lparr>committed := live s\<rparr>"

text \<open>
  Each request has a session of its own: what a request wrote and did not commit is gone
  when it ends, and the next request starts from the committed tables.
\<close>

definition new_session :: "store \<Rightarrow> store" where
  "new_session s = s\<lparr>live := committed s\<rparr>"

definition emit :: "effect \<Rightarrow> store \<Rightarrow> store" where
  "emit e s = s\<lparr>outbox := outbox s @ [e]\<rparr>"

definition next_id :: "int list \<Rightarrow> int" where
  "next_id ids = fold max ids 0 + 1"

definition User_get :: "user list \<Rightarrow> int \<Rightarrow> user option" where
  "User_get us i = find (\<lambda>u. uid u = i) us"

definition User_get_by :: "user list \<Rightarrow> pystr \<Rightarrow> user option" where
  "User_get_by us e = find (\<lambda>u. Some (email u) = e) us"

definition User_write :: "user \<Rightarrow> store \<Rightarrow> store" where
  "User_write u s =
     s\<lparr>live := (live s)\<lparr>users := map (\<lambda>r. if uid r = uid u then u else r) (users (live s))\<rparr>\<rparr>"

definition ApiKey_get_by_code :: "api_key list \<Rightarrow> pystr \<Rightarrow> api_key option" where
  "ApiKey_get_by_code ks c = find (\<lambda>k. Some (key_code k) = c) ks"

definition ApiKey_get_by :: "api_key list \<Rightarrow> int \<Rightarrow> pystr \<Rightarrow> api_key option" where
  "ApiKey_get_by ks i n = find (\<lambda>k. key_user_id k = i \<and> key_name k = n) ks"

definition ApiKey_write :: "api_key \<Rightarrow> store \<Rightarrow> store" where
  "ApiKey_write k s =
     s\<lparr>live := (live s)\<lparr>api_keys := map (\<lambda>r. if kid r = kid k then k else r) (api_keys (live s))\<rparr>\<rparr>"

text \<open>
  \<open>ApiKey.create(user_id, name)\<close>: the new key has the code \<open>rnd\<close> that the random
  source gives, no use yet and no sudo mode.
\<close>

definition ApiKey_create :: "string \<Rightarrow> int \<Rightarrow> pystr \<Rightarrow> store \<Rightarrow> store \<times> api_key" where
  "ApiKey_create rnd i n s =
     (let k = \<lparr>kid = next_id (map kid (api_keys (live s))), key_user_id = i, key_code = rnd,
                key_name = n, last_used = None, key_times = 0, sudo_mode_at = None\<rparr>
      in (s\<lparr>live := (live s)\<lparr>api_keys := api_keys (live s) @ [k]\<rparr>\<rparr>, k))"

definition AccountActivation_get_by :: "account_activation list \<Rightarrow> int \<Rightarrow> account_activation option" where
  "AccountActivation_get_by as i = find (\<lambda>a. act_user_id a = i) as"

definition AccountActivation_write :: "account_activation \<Rightarrow> store \<Rightarrow> store" where
  "AccountActivation_write a s =
     s\<lparr>live := (live s)\<lparr>activations := map (\<lambda>r. if aid r = aid a then a else r) (activations (live s))\<rparr>\<rparr>"

definition AccountActivation_delete :: "int \<Rightarrow> store \<Rightarrow> store" where
  "AccountActivation_delete i s =
     s\<lparr>live := (live s)\<lparr>activations := filter (\<lambda>r. aid r \<noteq> i) (activations (live s))\<rparr>\<rparr>"

definition AccountActivation_create :: "env \<Rightarrow> int \<Rightarrow> string \<Rightarrow> store \<Rightarrow> store" where
  "AccountActivation_create E i c s =
     (let a = \<lparr>aid = next_id (map aid (activations (live s))), act_user_id = i, act_code = c,
                tries = activation_tries E\<rparr>
      in s\<lparr>live := (live s)\<lparr>activations := activations (live s) @ [a]\<rparr>\<rparr>)"

section \<open>app/api/base.py\<close>

definition jsonify_error :: "string \<Rightarrow> json" where
  "jsonify_error m = [(''error'', JStr m)]"

definition jsonify_msg :: "string \<Rightarrow> json" where
  "jsonify_msg m = [(''msg'', JStr m)]"

definition SUDO_MODE_VALID :: int where
  "SUDO_MODE_VALID = 5"

text \<open>\<open>t.shift(minutes=m)\<close> on the microsecond axis.\<close>

definition shift_minutes :: "time \<Rightarrow> int \<Rightarrow> time" where
  "shift_minutes t m = t + m * 60000000"

definition seconds :: "int \<Rightarrow> time" where
  "seconds n = n * 1000000"

text \<open>
  The two account checks that end \<open>authorize_request\<close>, after either branch has set
  \<open>g.user\<close>; \<open>ak\<close> is the key of the request (\<open>None\<close> for session auth).
\<close>

definition account_checks :: "env \<Rightarrow> user \<Rightarrow> api_key option \<Rightarrow> gate" where
  "account_checks E u ak =
     (if disabled u then Denied (jsonify_error ''Disabled account'') 403
      else if \<not> is_active E u then Denied (jsonify_error ''Account inactive'') 401
      else Granted \<lparr>g_user = u, g_api_key = ak\<rparr>)"

text \<open>
  \<open>authorize_request\<close> at time \<open>now\<close>. \<open>api_key.user\<close> is the row of \<open>api_key.user_id\<close>;
  were there none, \<open>g.user\<close> would be \<open>None\<close> and reading \<open>g.user.disabled\<close> raises.
\<close>

definition authorize_request :: "env \<Rightarrow> time \<Rightarrow> request \<Rightarrow> store \<Rightarrow> store \<times> gate" where
  "authorize_request E now rq s =
     (case ApiKey_get_by_code (api_keys (live s)) (authentication rq) of
        None \<Rightarrow>
          (case current_user rq of
             None \<Rightarrow> (s, Denied (jsonify_error ''Wrong API key'') 401)
           | Some u \<Rightarrow> (s, account_checks E u None))
      | Some api_key \<Rightarrow>
          (let api_key' = api_key\<lparr>last_used := Some now, key_times := key_times api_key + 1\<rparr>;
               s1 = Session_commit (ApiKey_write api_key' s)
           in case User_get (users (live s1)) (key_user_id api_key') of
                None \<Rightarrow> (s1, Raised AttributeError)
              | Some u \<Rightarrow> (s1, account_checks E u (Some api_key'))))"

definition check_sudo :: "api_key option \<Rightarrow> time \<Rightarrow> bool" where
  "check_sudo api_key now =
     (case api_key of
        None \<Rightarrow> False
      | Some k \<Rightarrow>
          (case sudo_mode_at k of
             None \<Rightarrow> False
           | Some t \<Rightarrow> t \<ge> shift_minutes now (- SUDO_MODE_VALID)))"

text \<open>
  The decorators, applied to a view \<open>f\<close> that reads \<open>flask.g\<close>. \<open>require_api_sudo\<close> reads
  the clock twice: \<open>now\<close> in \<open>authorize_request\<close> and \<open>now'\<close> in \<open>check_sudo\<close>.
\<close>

definition require_api_auth ::
  "env \<Rightarrow> (g_ctx \<Rightarrow> request \<Rightarrow> store \<Rightarrow> store \<times> result) \<Rightarrow> time \<Rightarrow> request \<Rightarrow> store \<Rightarrow> store \<times> result" where
  "require_api_auth E f now rq s =
     (case authorize_request E now rq s of
        (s1, Denied j st) \<Rightarrow> (s1, Response j st)
      | (s1, Raised e) \<Rightarrow> (s1, Exception e)
      | (s1, Granted g) \<Rightarrow> f g rq s1)"

definition require_api_sudo ::
  "env \<Rightarrow> (g_ctx \<Rightarrow> request \<Rightarrow> store \<Rightarrow> store \<times> result) \<Rightarrow> time \<Rightarrow> time \<Rightarrow> request \<Rightarrow> store \<Rightarrow> store \<times> result" where
  "require_api_sudo E f now now' rq s =
     (case authorize_request E now rq s of
        (s1, Denied j st) \<Rightarrow> (s1, Response j st)
      | (s1, Raised e) \<Rightarrow> (s1, Exception e)
      | (s1, Granted g) \<Rightarrow>
          (if check_sudo (g_api_key g) now' then f g rq s1
           else (s1, Response (jsonify_error ''Sudo required'') 440)))"

section \<open>app/api/views/auth.py\<close>

text \<open>Python's truth value of a \<open>str | None\<close>: \<open>None\<close> and the empty string are false.\<close>

definition truthy :: "pystr \<Rightarrow> bool" where
  "truthy v = (case v of None \<Rightarrow> False | Some x \<Rightarrow> x \<noteq> [])"

text \<open>\<open>User.get_by(email=e) or User.get_by(email=c)\<close>; a row is always true.\<close>

definition User_get_by_or :: "user list \<Rightarrow> pystr \<Rightarrow> pystr \<Rightarrow> user option" where
  "User_get_by_or us e c = (case User_get_by us e of Some u \<Rightarrow> Some u | None \<Rightarrow> User_get_by us c)"

text \<open>\<open>user.name or ""\<close>\<close>

definition name_or_empty :: "user \<Rightarrow> string" where
  "name_or_empty u = (case uname u of None \<Rightarrow> [] | Some n \<Rightarrow> n)"

text \<open>\<open>auth_payload(user, device)\<close>; \<open>rnd\<close> is the code a new key would get.\<close>

definition auth_payload :: "env \<Rightarrow> string \<Rightarrow> user \<Rightarrow> pystr \<Rightarrow> store \<Rightarrow> store \<times> json" where
  "auth_payload E rnd u device s =
     (let ret = [(''name'', JStr (name_or_empty u)), (''email'', JStr (email u)),
                 (''mfa_enabled'', JBool (enable_otp u))]
      in if enable_otp u then
           (s, ret @ [(''mfa_key'', JStr (signer_sign E (py_str E (uid u)))), (''api_key'', JNull)])
         else
           (case (case ApiKey_get_by (api_keys (live s)) (uid u) device of
                    Some k \<Rightarrow> (s, k)
                  | None \<Rightarrow>
                      (case ApiKey_create rnd (uid u) device s of
                         (s', k) \<Rightarrow> (Session_commit s', k))) of
              (s1, api_key) \<Rightarrow>
                (emit (LoginUser (uid u)) s1,
                 ret @ [(''mfa_key'', JNull), (''api_key'', JStr (key_code api_key))])))"

definition auth_login :: "env \<Rightarrow> string \<Rightarrow> request \<Rightarrow> store \<Rightarrow> store \<times> result" where
  "auth_login E rnd rq s =
     (case body rq of
        None \<Rightarrow> (s, Response (jsonify_error ''Request body cannot be empty'') 400)
      | Some data \<Rightarrow>
          if data = [] then (s, Response (jsonify_error ''Request body cannot be empty'') 400)
          else
            (let email0 = map_of data ''email'';
                 password = map_of data ''password'';
                 device = map_of data ''device''
             in if \<not> (truthy email0 \<and> truthy password \<and> truthy device) then
                  (emit (LoginEvent Failed) s, Response (jsonify_error ''Missing required fields'') 400)
                else
                  (let email1 = sanitize_email E email0;
                       canonical_email = canonicalize_email E email1
                   in case User_get_by_or (users (live s)) email1 canonical_email of
                        None \<Rightarrow>
                          (emit (LoginEvent Failed) s,
                           Response (jsonify_error ''Email or password incorrect'') 400)
                      | Some u \<Rightarrow>
                          if \<not> check_password E u password then
                            (emit (LoginEvent Failed) s,
                             Response (jsonify_error ''Email or password incorrect'') 400)
                          else if disabled u then
                            (emit (LoginEvent Disabled_login) s,
                             Response (jsonify_error ''Account disabled'') 400)
                          else if delete_on u \<noteq> None then
                            (emit (LoginEvent Scheduled_to_be_deleted) s,
                             Response (jsonify_error ''Account scheduled for deletion'') 400)
                          else if \<not> activated u then
                            (emit (LoginEvent Not_activated) s,
                             Response (jsonify_error ''Account not activated'') 403)
                          else if fido_enabled E u \<and> \<not> enable_otp u then
                            (s, Response (jsonify_error
                               ''FIDO authentication is not supported for this application'') 403)
                          else
                            (case auth_payload E rnd u device (emit (LoginEvent Success) s) of
                               (s1, ret) \<Rightarrow> (s1, Response ret 200)))))"

definition auth_activate :: "env \<Rightarrow> request \<Rightarrow> store \<Rightarrow> store \<times> result" where
  "auth_activate E rq s =
     (case body rq of
        None \<Rightarrow> (s, Response (jsonify_error ''Request body cannot be empty'') 400)
      | Some data \<Rightarrow>
          if data = [] then (s, Response (jsonify_error ''Request body cannot be empty'') 400)
          else
            (let email0 = map_of data ''email'';
                 code = map_of data ''code''
             in if \<not> (truthy email0 \<and> truthy code) then
                  (s, Response (jsonify_error ''Missing required fields'') 400)
                else
                  (let email1 = sanitize_email E email0;
                       canonical_email = canonicalize_email E email1
                   in case User_get_by_or (users (live s)) email1 canonical_email of
                        None \<Rightarrow> (s, Response (jsonify_error ''Wrong email or code'') 400)
                      | Some u \<Rightarrow>
                          if activated u then
                            (s, Response (jsonify_error ''Wrong email or code'') 400)
                          else
                            (case AccountActivation_get_by (activations (live s)) (uid u) of
                               None \<Rightarrow> (s, Response (jsonify_error ''Wrong email or code'') 400)
                             | Some account_activation \<Rightarrow>
                                 if Some (act_code account_activation) \<noteq> code then
                                   (let a' = account_activation\<lparr>tries := tries account_activation - 1\<rparr>;
                                        s1 = Session_commit (AccountActivation_write a' s)
                                    in if tries a' = 0 then
                                         (Session_commit (AccountActivation_delete (aid a') s1),
                                          Response (jsonify_error ''Too many wrong tries'') 410)
                                       else (s1, Response (jsonify_error ''Wrong email or code'') 400))
                                 else
                                   (let s1 = User_write (u\<lparr>activated := True\<rparr>) s;
                                        s2 = emit (AuditLogActivateUser (uid u)
                                               (''User has been activated: '' @ email u)) s1;
                                        s3 = AccountActivation_delete (aid account_activation) s2
                                    in (Session_commit s3,
                                        Response (jsonify_msg
                                          ''Account is activated, user can login now'') 200))))))"

text \<open>\<open>auth_reactivate\<close>; \<open>rnd\<close> is the six digits the random source gives.\<close>

definition auth_reactivate :: "env \<Rightarrow> string \<Rightarrow> request \<Rightarrow> store \<Rightarrow> store \<times> result" where
  "auth_reactivate E rnd rq s =
     (case body rq of
        None \<Rightarrow> (s, Response (jsonify_error ''request body cannot be empty'') 400)
      | Some data \<Rightarrow>
          if data = [] then (s, Response (jsonify_error ''request body cannot be empty'') 400)
          else
            (let email1 = sanitize_email E (map_of data ''email'');
                 canonical_email = canonicalize_email E (map_of data ''email'')
             in case User_get_by_or (users (live s)) email1 canonical_email of
                  None \<Rightarrow> (s, Response (jsonify_error ''Something went wrong'') 400)
                | Some u \<Rightarrow>
                    if activated u then (s, Response (jsonify_error ''Something went wrong'') 400)
                    else
                      (let s1 = (case AccountActivation_get_by (activations (live s)) (uid u) of
                                   None \<Rightarrow> s
                                 | Some account_activation \<Rightarrow>
                                     Session_commit
                                       (AccountActivation_delete (aid account_activation) s));
                           s2 = Session_commit (AccountActivation_create E (uid u) rnd s1);
                           s3 = emit (SendEmail email1 rnd) s2
                       in (s3, Response (jsonify_msg ''User needs to confirm their account'') 200))))"

section \<open>app/api/views/auth\_mfa.py\<close>

definition auth_mfa :: "env \<Rightarrow> string \<Rightarrow> request \<Rightarrow> store \<Rightarrow> store \<times> result" where
  "auth_mfa E rnd rq s =
     (case body rq of
        None \<Rightarrow> (s, Response (jsonify_error ''Request body cannot be empty'') 400)
      | Some data \<Rightarrow>
          if data = [] then (s, Response (jsonify_error ''Request body cannot be empty'') 400)
          else
            (let mfa_token = map_of data ''mfa_token'';
                 mfa_key = map_of data ''mfa_key'';
                 device = map_of data ''device''
             in if \<not> (truthy mfa_token \<and> truthy mfa_key \<and> truthy device) then
                  (s, Response (jsonify_error ''Missing required fields'') 400)
                else
                  (case signer_unsign E mfa_key of
                     None \<Rightarrow> (s, Response (jsonify_error ''Invalid mfa_key'') 400)
                   | Some payload \<Rightarrow>
                       (case py_int E payload of
                          None \<Rightarrow> (s, Response (jsonify_error ''Invalid mfa_key'') 400)
                        | Some user_id \<Rightarrow>
                            (case User_get (users (live s)) user_id of
                               None \<Rightarrow> (s, Response (jsonify_error ''Invalid mfa_key'') 400)
                             | Some u \<Rightarrow>
                                 if \<not> enable_otp u then
                                   (s, Response (jsonify_error
                                      ''This endpoint should only be used by users who enable MFA'') 400)
                                 else if \<not> totp_verify E (otp_secret u) mfa_token 2 then
                                   (emit (InvalidTotpLoginEmail (uid u)) s,
                                    Response (jsonify_error ''Wrong TOTP Token'') 400)
                                 else
                                   (let ret = [(''name'', JStr (name_or_empty u)),
                                               (''email'', JStr (email u))]
                                    in case (case ApiKey_get_by (api_keys (live s)) (uid u) device of
                                               Some k \<Rightarrow> (s, k)
                                             | None \<Rightarrow>
                                                 (case ApiKey_create rnd (uid u) device s of
                                                    (s', k) \<Rightarrow> (Session_commit s', k))) of
                                         (s1, api_key) \<Rightarrow>
                                           (emit (LoginUser (uid u)) s1,
                                            Response (ret @ [(''api_key'', JStr (key_code api_key))])
                                              200)))))))"

section \<open>app/api/views/user\_info.py\<close>

text \<open>The view under \<open>@require_api_auth\<close>, and the route as deployed.\<close>

definition create_api_key_view :: "string \<Rightarrow> g_ctx \<Rightarrow> request \<Rightarrow> store \<Rightarrow> store \<times> result" where
  "create_api_key_view rnd g rq s =
     (case body rq of
        None \<Rightarrow> (s, Response (jsonify_error ''Device name is required'') 400)
      | Some data \<Rightarrow>
          if data = [] then (s, Response (jsonify_error ''Device name is required'') 400)
          else
            (case map_of data ''device'' of
               None \<Rightarrow> (s, Response (jsonify_error ''Device name is required'') 400)
             | Some d \<Rightarrow>
                 (case ApiKey_create rnd (uid (g_user g)) (Some d) s of
                    (s', api_key) \<Rightarrow>
                      (Session_commit s', Response [(''api_key'', JStr (key_code api_key))] 201))))"

definition create_api_key :: "env \<Rightarrow> string \<Rightarrow> time \<Rightarrow> request \<Rightarrow> store \<Rightarrow> store \<times> result" where
  "create_api_key E rnd = require_api_auth E (create_api_key_view rnd)"

section \<open>The invariant on keys, and a small database to run the views on\<close>

text \<open>At most one key for a pair of a user and a device name.\<close>

definition one_key_per_device :: "api_key list \<Rightarrow> bool" where
  "one_key_per_device ks = distinct (map (\<lambda>k. (key_user_id k, key_name k)) ks)"

text \<open>
  An instance of the parameters: emails are kept as they are, every user has the same
  password, a signed value is the value behind a prefix, and one TOTP token verifies.
\<close>

definition ex_env :: env where
  "ex_env =
     \<lparr>sanitize_email = (\<lambda>e. e),
      canonicalize_email = (\<lambda>e. e),
      check_password = (\<lambda>u p. p = Some ''hunter22''),
      fido_enabled = (\<lambda>u. False),
      is_active = (\<lambda>u. delete_on u = None),
      signer_sign = (\<lambda>x. ''sig:'' @ x),
      signer_unsign = (\<lambda>k. case k of
          Some (CHR ''s'' # CHR ''i'' # CHR ''g'' # CHR '':'' # x) \<Rightarrow> Some x
        | _ \<Rightarrow> None),
      py_int = (\<lambda>x. if x = ''1'' then Some 1 else if x = ''3'' then Some 3
                     else if x = ''9'' then Some 9 else None),
      py_str = (\<lambda>i. if i = 3 then ''3'' else ''1''),
      totp_verify = (\<lambda>secret token w. token = Some ''123456''),
      activation_tries = 3\<rparr>"

definition ex_user :: "int \<Rightarrow> string \<Rightarrow> user" where
  "ex_user i e =
     \<lparr>uid = i, email = e, uname = None, activated = True, disabled = False, delete_on = None,
      enable_otp = False, otp_secret = None\<rparr>"

definition ex_key :: "int \<Rightarrow> int \<Rightarrow> string \<Rightarrow> string \<Rightarrow> api_key" where
  "ex_key i u c n =
     \<lparr>kid = i, key_user_id = u, key_code = c, key_name = Some n, last_used = Some 500,
      key_times = 7, sudo_mode_at = None\<rparr>"

text \<open>
  alice can log in and has a key for her phone; bob and erin are not activated yet, bob
  with one try left and erin with three; carol has MFA enabled and a key for her phone;
  dave is disabled and frank is not active (\<open>ex_env\<close> takes a user scheduled for
  deletion as inactive), and both have a key.
\<close>

definition ex_tables :: tables where
  "ex_tables =
     \<lparr>users =
        [ex_user 1 ''alice@example.com'',
         (ex_user 2 ''bob@example.com'')\<lparr>activated := False\<rparr>,
         (ex_user 3 ''carol@example.com'')\<lparr>enable_otp := True, otp_secret := Some ''JBSWY3DP''\<rparr>,
         (ex_user 4 ''dave@example.com'')\<lparr>disabled := True\<rparr>,
         (ex_user 5 ''erin@example.com'')\<lparr>activated := False\<rparr>,
         (ex_user 6 ''frank@example.com'')\<lparr>delete_on := Some 100\<rparr>],
      api_keys =
        [ex_key 1 1 ''key-alice'' ''phone'', ex_key 2 4 ''key-dave'' ''laptop'',
         ex_key 3 3 ''key-carol'' ''phone'', ex_key 4 6 ''key-frank'' ''phone''],
      activations =
        [\<lparr>aid = 1, act_user_id = 2, act_code = ''424242'', tries = 1\<rparr>,
         \<lparr>aid = 2, act_user_id = 5, act_code = ''111111'', tries = 3\<rparr>]\<rparr>"

definition ex_store :: store where
  "ex_store = \<lparr>live = ex_tables, committed = ex_tables, outbox = []\<rparr>"

definition ex_post :: "(string \<times> string) list \<Rightarrow> request" where
  "ex_post d = \<lparr>body = Some d, authentication = None, current_user = None\<rparr>"

definition ex_post_with_key :: "string \<Rightarrow> (string \<times> string) list \<Rightarrow> request" where
  "ex_post_with_key c d = \<lparr>body = Some d, authentication = Some c, current_user = None\<rparr>"

section \<open>Rows and lookups\<close>

lemma find_write_row:
  "find P xs = Some k \<Longrightarrow> P k' \<Longrightarrow> f k' = f k \<Longrightarrow>
   find P (map (\<lambda>r. if f r = f k' then k' else r) xs) = Some k'"
  by (induction xs) (auto split: if_splits)

lemma find_write_row_None:
  "find P xs = None \<Longrightarrow> \<not> P k' \<Longrightarrow>
   find P (map (\<lambda>r. if f r = f k' then k' else r) xs) = None"
  by (induction xs) (auto split: if_splits)

lemma find_Some_holds: "find P xs = Some x \<Longrightarrow> P x"
  by (induction xs) (auto split: if_splits)

lemma find_Some_mem: "find P xs = Some x \<Longrightarrow> x \<in> set xs"
  by (induction xs) (auto split: if_splits)

lemma filter_write_row:
  "filter (\<lambda>r. f r \<noteq> i) (map (\<lambda>r. if f r = i then k' else r) xs) = filter (\<lambda>r. f r \<noteq> i) xs"
  if "f k' = i"
  using that by (induction xs) auto

lemmas ex_defs = ex_env_def ex_user_def ex_key_def ex_tables_def ex_store_def ex_post_def
  ex_post_with_key_def

lemmas orm_defs = Session_commit_def emit_def next_id_def User_get_def User_get_by_def
  User_write_def ApiKey_get_by_code_def ApiKey_get_by_def ApiKey_write_def ApiKey_create_def
  AccountActivation_get_by_def AccountActivation_write_def AccountActivation_delete_def
  AccountActivation_create_def User_get_by_or_def

section \<open>Sudo elevation\<close>

text \<open>
  C2. \<open>check_sudo\<close> holds exactly when the key is present, its \<open>sudo_mode_at\<close> is set
  and the time since then is at most five minutes; a key elevated at \<open>T\<close> passes the
  check 4 min 59 s later and fails it 5 min 1 s later.
\<close>

theorem check_sudo_window:
  "check_sudo ak now =
     (\<exists>k t. ak = Some k \<and> sudo_mode_at k = Some t \<and> now - t \<le> seconds (5 * 60))
   \<and> check_sudo (Some (k0\<lparr>sudo_mode_at := Some T\<rparr>)) (T + seconds (4 * 60 + 59))
   \<and> \<not> check_sudo (Some (k0\<lparr>sudo_mode_at := Some T\<rparr>)) (T + seconds (5 * 60 + 1))"
  by (auto simp: check_sudo_def shift_minutes_def SUDO_MODE_VALID_def seconds_def
      split: option.splits)

section \<open>The authorization gate\<close>

lemma authorize_request_found:
  assumes "ApiKey_get_by_code (api_keys (live s)) (authentication rq) = Some k"
  shows "fst (authorize_request E now rq s) =
           Session_commit (ApiKey_write (k\<lparr>last_used := Some now, key_times := key_times k + 1\<rparr>) s)"
  using assms by (simp add: authorize_request_def Let_def split: option.splits)

text \<open>
  C3. When the \<open>Authentication\<close> header is the code of a key, \<open>authorize_request\<close>
  commits the key with one more use and \<open>last_used = now\<close>, whatever the account checks
  then answer: also when they answer 403 for a disabled account or 401 for an inactive
  one.
\<close>

theorem authorize_request_records_usage:
  assumes found: "ApiKey_get_by_code (api_keys (live s)) (authentication rq) = Some k"
  shows "ApiKey_get_by_code (api_keys (committed (fst (authorize_request E now rq s)))) (authentication rq)
           = Some (k\<lparr>last_used := Some now, key_times := key_times k + 1\<rparr>)
       \<and> (\<forall>u. User_get (users (live s)) (key_user_id k) = Some u \<and> disabled u \<longrightarrow>
             snd (authorize_request E now rq s) = Denied (jsonify_error ''Disabled account'') 403)
       \<and> (\<forall>u. User_get (users (live s)) (key_user_id k) = Some u \<and> \<not> disabled u \<and> \<not> is_active E u \<longrightarrow>
             snd (authorize_request E now rq s) = Denied (jsonify_error ''Account inactive'') 401)"
proof -
  let ?k' = "k\<lparr>last_used := Some now, key_times := key_times k + 1\<rparr>"
  have P: "Some (key_code ?k') = authentication rq"
    using find_Some_holds[OF found[unfolded ApiKey_get_by_code_def]] by simp
  have "find (\<lambda>r. Some (key_code r) = authentication rq)
          (map (\<lambda>r. if kid r = kid ?k' then ?k' else r) (api_keys (live s))) = Some ?k'"
    using found P by (intro find_write_row) (simp_all add: ApiKey_get_by_code_def)
  then have 1: "ApiKey_get_by_code (api_keys (committed (fst (authorize_request E now rq s)))) (authentication rq) = Some ?k'"
    by (simp add: authorize_request_found[OF found] Session_commit_def ApiKey_write_def ApiKey_get_by_code_def)
  have 2: "snd (authorize_request E now rq s) = Denied (jsonify_error ''Disabled account'') 403"
    if "User_get (users (live s)) (key_user_id k) = Some u" "disabled u" for u
    using found that
    by (simp add: authorize_request_def Let_def Session_commit_def ApiKey_write_def account_checks_def)
  have 3: "snd (authorize_request E now rq s) = Denied (jsonify_error ''Account inactive'') 401"
    if "User_get (users (live s)) (key_user_id k) = Some u" "\<not> disabled u" "\<not> is_active E u" for u
    using found that
    by (simp add: authorize_request_def Let_def Session_commit_def ApiKey_write_def account_checks_def)
  from 1 2 3 show ?thesis by blast
qed

theorem authorize_request_records_usage_witness:
  "ApiKey_get_by_code (api_keys (live ex_store)) (Some ''key-dave'') = Some (ex_key 2 4 ''key-dave'' ''laptop'')
   \<and> snd (authorize_request ex_env 1000 (ex_post_with_key ''key-dave'' []) ex_store)
       = Denied (jsonify_error ''Disabled account'') 403
   \<and> ApiKey_get_by_code
        (api_keys (committed (fst (authorize_request ex_env 1000 (ex_post_with_key ''key-dave'' []) ex_store))))
        (Some ''key-dave'')
       = Some ((ex_key 2 4 ''key-dave'' ''laptop'')\<lparr>last_used := Some 1000, key_times := 8\<rparr>)
   \<and> snd (authorize_request ex_env 1000 (ex_post_with_key ''key-frank'' []) ex_store)
       = Denied (jsonify_error ''Account inactive'') 401
   \<and> ApiKey_get_by_code
        (api_keys (committed (fst (authorize_request ex_env 1000 (ex_post_with_key ''key-frank'' []) ex_store))))
        (Some ''key-frank'')
       = Some ((ex_key 4 6 ''key-frank'' ''phone'')\<lparr>last_used := Some 1000, key_times := 8\<rparr>)"
proof -
  have h: "ApiKey_get_by_code (api_keys (live ex_store)) (authentication (ex_post_with_key ''key-dave'' []))
             = Some (ex_key 2 4 ''key-dave'' ''laptop'')"
    by (simp add: ex_defs orm_defs)
  have u: "User_get (users (live ex_store)) (key_user_id (ex_key 2 4 ''key-dave'' ''laptop''))
             = Some ((ex_user 4 ''dave@example.com'')\<lparr>disabled := True\<rparr>)"
    by (simp add: ex_defs orm_defs)
  have d: "disabled ((ex_user 4 ''dave@example.com'')\<lparr>disabled := True\<rparr>)" by simp
  have h': "ApiKey_get_by_code (api_keys (live ex_store)) (authentication (ex_post_with_key ''key-frank'' []))
             = Some (ex_key 4 6 ''key-frank'' ''phone'')"
    by (simp add: ex_defs orm_defs)
  have u': "User_get (users (live ex_store)) (key_user_id (ex_key 4 6 ''key-frank'' ''phone''))
             = Some ((ex_user 6 ''frank@example.com'')\<lparr>delete_on := Some 100\<rparr>)"
    by (simp add: ex_defs orm_defs)
  have d': "\<not> disabled ((ex_user 6 ''frank@example.com'')\<lparr>delete_on := Some 100\<rparr>)"
      "\<not> is_active ex_env ((ex_user 6 ''frank@example.com'')\<lparr>delete_on := Some 100\<rparr>)"
    by (simp_all add: ex_defs)
  from authorize_request_records_usage[OF h, of ex_env 1000] u d h
  have 1: "snd (authorize_request ex_env 1000 (ex_post_with_key ''key-dave'' []) ex_store)
       = Denied (jsonify_error ''Disabled account'') 403
   \<and> ApiKey_get_by_code
        (api_keys (committed (fst (authorize_request ex_env 1000 (ex_post_with_key ''key-dave'' []) ex_store))))
        (Some ''key-dave'')
       = Some ((ex_key 2 4 ''key-dave'' ''laptop'')\<lparr>last_used := Some 1000, key_times := 8\<rparr>)"
    by (simp add: ex_post_with_key_def ex_key_def)
  from authorize_request_records_usage[OF h', of ex_env 1000] u' d' h'
  have 2: "snd (authorize_request ex_env 1000 (ex_post_with_key ''key-frank'' []) ex_store)
       = Denied (jsonify_error ''Account inactive'') 401
   \<and> ApiKey_get_by_code
        (api_keys (committed (fst (authorize_request ex_env 1000 (ex_post_with_key ''key-frank'' []) ex_store))))
        (Some ''key-frank'')
       = Some ((ex_key 4 6 ''key-frank'' ''phone'')\<lparr>last_used := Some 1000, key_times := 8\<rparr>)"
    by (simp add: ex_post_with_key_def ex_key_def)
  from 1 2 h show ?thesis by (simp add: ex_post_with_key_def)
qed

lemma authorize_request_status:
  "snd (authorize_request E now rq s) = Denied j st \<Longrightarrow> st = 401 \<or> st = 403"
  by (auto simp: authorize_request_def account_checks_def Let_def split: option.splits if_splits)

lemma check_sudo_usage:
  "check_sudo (Some (k\<lparr>last_used := t, key_times := n\<rparr>)) now = check_sudo (Some k) now"
  by (simp add: check_sudo_def)

text \<open>
  C9. Under \<open>@require_api_sudo\<close>, a request that passes \<open>authorize_request\<close> and whose
  key has no live sudo mode is answered 440 "Sudo required"; a request authenticated by
  the session alone has no key and is answered so at every time. The answers of
  \<open>authorize_request\<close> itself have status 401 or 403 and differ from it.
\<close>

theorem require_api_sudo_elevation_required:
  "(\<forall>s1 g. authorize_request E now rq s = (s1, Granted g) \<and> \<not> check_sudo (g_api_key g) now' \<longrightarrow>
      require_api_sudo E f now now' rq s = (s1, Response (jsonify_error ''Sudo required'') 440))
   \<and> (\<forall>k u. ApiKey_get_by_code (api_keys (live s)) (authentication rq) = Some k
          \<and> User_get (users (live s)) (key_user_id k) = Some u \<and> \<not> disabled u \<and> is_active E u
          \<and> \<not> check_sudo (Some k) now' \<longrightarrow>
        snd (require_api_sudo E f now now' rq s) = Response (jsonify_error ''Sudo required'') 440)
   \<and> (\<forall>u. ApiKey_get_by_code (api_keys (live s)) (authentication rq) = None
          \<and> current_user rq = Some u \<and> \<not> disabled u \<and> is_active E u \<longrightarrow>
        require_api_sudo E f now now' rq s = (s, Response (jsonify_error ''Sudo required'') 440))
   \<and> (\<forall>j st. snd (authorize_request E now rq s) = Denied j st \<longrightarrow>
        (st = 401 \<or> st = 403) \<and> Response j st \<noteq> Response (jsonify_error ''Sudo required'') 440)"
proof -
  have a: "require_api_sudo E f now now' rq s = (s1, Response (jsonify_error ''Sudo required'') 440)"
    if "authorize_request E now rq s = (s1, Granted g)" "\<not> check_sudo (g_api_key g) now'" for s1 g
    using that by (simp add: require_api_sudo_def)
  have b: "snd (require_api_sudo E f now now' rq s) = Response (jsonify_error ''Sudo required'') 440"
    if "ApiKey_get_by_code (api_keys (live s)) (authentication rq) = Some k"
       "User_get (users (live s)) (key_user_id k) = Some u" "\<not> disabled u" "is_active E u"
       "\<not> check_sudo (Some k) now'" for k u
    using that
    by (simp add: require_api_sudo_def authorize_request_def account_checks_def Let_def
        Session_commit_def ApiKey_write_def check_sudo_usage)
  have c: "require_api_sudo E f now now' rq s = (s, Response (jsonify_error ''Sudo required'') 440)"
    if "ApiKey_get_by_code (api_keys (live s)) (authentication rq) = None"
       "current_user rq = Some u" "\<not> disabled u" "is_active E u" for u
    using that
    by (simp add: require_api_sudo_def authorize_request_def account_checks_def check_sudo_def)
  have d: "(st = 401 \<or> st = 403) \<and> Response j st \<noteq> Response (jsonify_error ''Sudo required'') 440"
    if "snd (authorize_request E now rq s) = Denied j st" for j st
    using authorize_request_status[OF that] by auto
  from a b c d show ?thesis by blast
qed

theorem require_api_sudo_elevation_required_witness:
  "require_api_sudo ex_env (\<lambda>g rq s. (s, Response (jsonify_msg ''deleted'') 200)) 1000 1001
      \<lparr>body = None, authentication = None, current_user = Some (ex_user 1 ''alice@example.com'')\<rparr> ex_store
     = (ex_store, Response (jsonify_error ''Sudo required'') 440)
   \<and> snd (require_api_sudo ex_env (\<lambda>g rq s. (s, Response (jsonify_msg ''deleted'') 200)) 1000 1001
      (ex_post_with_key ''key-alice'' []) ex_store)
     = Response (jsonify_error ''Sudo required'') 440
   \<and> snd (authorize_request ex_env 1000 (ex_post_with_key ''key-dave'' []) ex_store)
     = Denied (jsonify_error ''Disabled account'') 403"
proof -
  let ?f = "\<lambda>(g::g_ctx) (rq::request) (s::store). (s, Response (jsonify_msg ''deleted'') 200)"
  let ?rq = "\<lparr>body = None, authentication = None, current_user = Some (ex_user 1 ''alice@example.com'')\<rparr>"
  note T = require_api_sudo_elevation_required
  have 1: "require_api_sudo ex_env ?f 1000 1001 ?rq ex_store
             = (ex_store, Response (jsonify_error ''Sudo required'') 440)"
    using T[of ex_env 1000 ?rq ex_store 1001 ?f]
    by (simp add: ex_defs orm_defs)
  have 2: "snd (require_api_sudo ex_env ?f 1000 1001 (ex_post_with_key ''key-alice'' []) ex_store)
             = Response (jsonify_error ''Sudo required'') 440"
    using T[of ex_env 1000 "ex_post_with_key ''key-alice'' []" ex_store 1001 ?f]
    by (simp add: ex_defs orm_defs check_sudo_def)
  have 3: "snd (authorize_request ex_env 1000 (ex_post_with_key ''key-dave'' []) ex_store)
             = Denied (jsonify_error ''Disabled account'') 403"
    by (simp add: authorize_request_def account_checks_def ex_defs orm_defs Let_def)
  from 1 2 3 show ?thesis by blast
qed

section \<open>Account activation\<close>

lemma auth_activate_found:
  assumes "body rq = Some data" "data \<noteq> []"
    and "truthy (map_of data ''email'')" "truthy (map_of data ''code'')"
    and "User_get_by_or (users (live s)) (sanitize_email E (map_of data ''email''))
           (canonicalize_email E (sanitize_email E (map_of data ''email''))) = Some u"
    and "\<not> activated u"
    and "AccountActivation_get_by (activations (live s)) (uid u) = Some a"
  shows "auth_activate E rq s =
     (if Some (act_code a) \<noteq> map_of data ''code'' then
        (let a' = a\<lparr>tries := tries a - 1\<rparr>;
             s1 = Session_commit (AccountActivation_write a' s)
         in if tries a' = 0 then
              (Session_commit (AccountActivation_delete (aid a') s1),
               Response (jsonify_error ''Too many wrong tries'') 410)
            else (s1, Response (jsonify_error ''Wrong email or code'') 400))
      else
        (Session_commit (AccountActivation_delete (aid a)
           (emit (AuditLogActivateUser (uid u) (''User has been activated: '' @ email u))
              (User_write (u\<lparr>activated := True\<rparr>) s))),
         Response (jsonify_msg ''Account is activated, user can login now'') 200))"
  using assms by (simp add: auth_activate_def Let_def)

lemma User_get_by_or_write:
  assumes "User_get_by_or us e c = Some u" "email u' = email u" "uid u' = uid u"
  shows "User_get_by_or (map (\<lambda>r. if uid r = uid u' then u' else r) us) e c = Some u'"
proof (cases "User_get_by us e")
  case None
  with assms have 2: "find (\<lambda>r. Some (email r) = c) us = Some u"
    by (simp add: User_get_by_or_def User_get_by_def)
  from None have 1: "find (\<lambda>r. Some (email r) = e) us = None" by (simp add: User_get_by_def)
  have "u \<in> set us" using 2 by (rule find_Some_mem)
  with 1 have "Some (email u) \<noteq> e" by (auto simp: find_None_iff)
  with assms(2) have "\<not> Some (email u') = e" by simp
  from find_write_row_None[OF 1 this, of uid]
  have n: "find (\<lambda>r. Some (email r) = e) (map (\<lambda>r. if uid r = uid u' then u' else r) us) = None" .
  have "Some (email u') = c" using find_Some_holds[OF 2] assms(2) by simp
  from find_write_row[OF 2 this assms(3)] n show ?thesis
    by (simp add: User_get_by_or_def User_get_by_def)
next
  case (Some x)
  with assms have 1: "find (\<lambda>r. Some (email r) = e) us = Some u"
    by (simp add: User_get_by_or_def User_get_by_def)
  have "Some (email u') = e" using find_Some_holds[OF 1] assms(2) by simp
  from find_write_row[OF 1 this assms(3)] show ?thesis
    by (simp add: User_get_by_or_def User_get_by_def)
qed

text \<open>
  C1. For a user who is not activated and has an activation record, \<open>auth_activate\<close>
  with another code than the record's commits the record with one try less and answers
  400 "Wrong email or code", unless that was the last try: then it deletes the record
  and answers 410 "Too many wrong tries". With the record's code it deletes the record,
  sets \<open>activated\<close> and answers 200.
\<close>

theorem auth_activate_outcomes:
  assumes wf: "body rq = Some data" "data \<noteq> []"
      "truthy (map_of data ''email'')" "truthy (map_of data ''code'')"
    and usr: "User_get_by_or (users (live s)) (sanitize_email E (map_of data ''email''))
           (canonicalize_email E (sanitize_email E (map_of data ''email''))) = Some u"
      "\<not> activated u"
    and act: "AccountActivation_get_by (activations (live s)) (uid u) = Some a"
  shows
    "(map_of data ''code'' \<noteq> Some (act_code a) \<and> tries a - 1 \<noteq> 0 \<longrightarrow>
        snd (auth_activate E rq s) = Response (jsonify_error ''Wrong email or code'') 400
      \<and> AccountActivation_get_by (activations (committed (fst (auth_activate E rq s)))) (uid u)
          = Some (a\<lparr>tries := tries a - 1\<rparr>)
      \<and> users (committed (fst (auth_activate E rq s))) = users (live s))
   \<and> (map_of data ''code'' \<noteq> Some (act_code a) \<and> tries a - 1 = 0 \<longrightarrow>
        snd (auth_activate E rq s) = Response (jsonify_error ''Too many wrong tries'') 410
      \<and> activations (committed (fst (auth_activate E rq s)))
          = filter (\<lambda>r. aid r \<noteq> aid a) (activations (live s))
      \<and> users (committed (fst (auth_activate E rq s))) = users (live s))
   \<and> (map_of data ''code'' = Some (act_code a) \<longrightarrow>
        snd (auth_activate E rq s) = Response (jsonify_msg ''Account is activated, user can login now'') 200
      \<and> activations (committed (fst (auth_activate E rq s)))
          = filter (\<lambda>r. aid r \<noteq> aid a) (activations (live s))
      \<and> User_get_by_or (users (committed (fst (auth_activate E rq s))))
           (sanitize_email E (map_of data ''email''))
           (canonicalize_email E (sanitize_email E (map_of data ''email'')))
          = Some (u\<lparr>activated := True\<rparr>))"
proof -
  note R = auth_activate_found[OF wf usr act]
  let ?a' = "a\<lparr>tries := tries a - 1\<rparr>"
  have w: "find (\<lambda>r. act_user_id r = uid u)
             (map (\<lambda>r. if aid r = aid ?a' then ?a' else r) (activations (live s))) = Some ?a'"
    using act find_Some_holds[OF act[unfolded AccountActivation_get_by_def]]
    by (intro find_write_row) (simp_all add: AccountActivation_get_by_def)
  have uw: "User_get_by_or
              (map (\<lambda>r. if uid r = uid (u\<lparr>activated := True\<rparr>) then u\<lparr>activated := True\<rparr> else r)
                 (users (live s)))
              (sanitize_email E (map_of data ''email''))
              (canonicalize_email E (sanitize_email E (map_of data ''email'')))
            = Some (u\<lparr>activated := True\<rparr>)"
    by (rule User_get_by_or_write[OF usr(1)]) simp_all
  have 1: ?thesis if "map_of data ''code'' \<noteq> Some (act_code a)" "tries a - 1 \<noteq> 0"
    using that w
    by (auto simp: R Let_def Session_commit_def AccountActivation_write_def
        AccountActivation_get_by_def)
  have 2: ?thesis if "map_of data ''code'' \<noteq> Some (act_code a)" "tries a - 1 = 0"
    using that
    by (auto simp: R Let_def Session_commit_def AccountActivation_write_def
        AccountActivation_delete_def filter_write_row)
  have 3: ?thesis if "map_of data ''code'' = Some (act_code a)"
    using that uw
    by (simp add: R Let_def Session_commit_def AccountActivation_delete_def emit_def User_write_def)
  from 1 2 3 show ?thesis by blast
qed


theorem auth_activate_outcomes_witness:
  "snd (auth_activate ex_env (ex_post [(''email'', ''erin@example.com''), (''code'', ''000000'')]) ex_store)
     = Response (jsonify_error ''Wrong email or code'') 400
   \<and> AccountActivation_get_by (activations (committed (fst (auth_activate ex_env
         (ex_post [(''email'', ''erin@example.com''), (''code'', ''000000'')]) ex_store)))) 5
     = Some \<lparr>aid = 2, act_user_id = 5, act_code = ''111111'', tries = 2\<rparr>
   \<and> snd (auth_activate ex_env (ex_post [(''email'', ''bob@example.com''), (''code'', ''000000'')]) ex_store)
     = Response (jsonify_error ''Too many wrong tries'') 410
   \<and> activations (committed (fst (auth_activate ex_env
         (ex_post [(''email'', ''bob@example.com''), (''code'', ''000000'')]) ex_store)))
     = [\<lparr>aid = 2, act_user_id = 5, act_code = ''111111'', tries = 3\<rparr>]
   \<and> snd (auth_activate ex_env (ex_post [(''email'', ''bob@example.com''), (''code'', ''424242'')]) ex_store)
     = Response (jsonify_msg ''Account is activated, user can login now'') 200
   \<and> activations (committed (fst (auth_activate ex_env
         (ex_post [(''email'', ''bob@example.com''), (''code'', ''424242'')]) ex_store)))
     = [\<lparr>aid = 2, act_user_id = 5, act_code = ''111111'', tries = 3\<rparr>]
   \<and> User_get_by_or (users (committed (fst (auth_activate ex_env
         (ex_post [(''email'', ''bob@example.com''), (''code'', ''424242'')]) ex_store))))
         (Some ''bob@example.com'') (Some ''bob@example.com'')
     = Some (ex_user 2 ''bob@example.com'')"
proof -
  let ?erin = "(ex_user 5 ''erin@example.com'')\<lparr>activated := False\<rparr>"
  let ?bob = "(ex_user 2 ''bob@example.com'')\<lparr>activated := False\<rparr>"
  let ?ae = "\<lparr>aid = 2, act_user_id = 5, act_code = ''111111'', tries = 3\<rparr>"
  let ?ab = "\<lparr>aid = 1, act_user_id = 2, act_code = ''424242'', tries = 1\<rparr>"
  note T = auth_activate_outcomes[where E = ex_env and s = ex_store]
  have 1: "snd (auth_activate ex_env (ex_post [(''email'', ''erin@example.com''), (''code'', ''000000'')]) ex_store)
     = Response (jsonify_error ''Wrong email or code'') 400
   \<and> AccountActivation_get_by (activations (committed (fst (auth_activate ex_env
         (ex_post [(''email'', ''erin@example.com''), (''code'', ''000000'')]) ex_store)))) 5
     = Some \<lparr>aid = 2, act_user_id = 5, act_code = ''111111'', tries = 2\<rparr>"
    using T[where rq = "ex_post [(''email'', ''erin@example.com''), (''code'', ''000000'')]"
        and data = "[(''email'', ''erin@example.com''), (''code'', ''000000'')]"
        and u = ?erin and a = ?ae]
    by (simp add: ex_defs orm_defs truthy_def)
  have 2: "snd (auth_activate ex_env (ex_post [(''email'', ''bob@example.com''), (''code'', ''000000'')]) ex_store)
     = Response (jsonify_error ''Too many wrong tries'') 410
   \<and> activations (committed (fst (auth_activate ex_env
         (ex_post [(''email'', ''bob@example.com''), (''code'', ''000000'')]) ex_store)))
     = [\<lparr>aid = 2, act_user_id = 5, act_code = ''111111'', tries = 3\<rparr>]"
    using T[where rq = "ex_post [(''email'', ''bob@example.com''), (''code'', ''000000'')]"
        and data = "[(''email'', ''bob@example.com''), (''code'', ''000000'')]"
        and u = ?bob and a = ?ab]
    by (simp add: ex_defs orm_defs truthy_def)
  have 3: "snd (auth_activate ex_env (ex_post [(''email'', ''bob@example.com''), (''code'', ''424242'')]) ex_store)
     = Response (jsonify_msg ''Account is activated, user can login now'') 200
   \<and> activations (committed (fst (auth_activate ex_env
         (ex_post [(''email'', ''bob@example.com''), (''code'', ''424242'')]) ex_store)))
     = [\<lparr>aid = 2, act_user_id = 5, act_code = ''111111'', tries = 3\<rparr>]
   \<and> User_get_by_or (users (committed (fst (auth_activate ex_env
         (ex_post [(''email'', ''bob@example.com''), (''code'', ''424242'')]) ex_store))))
         (Some ''bob@example.com'') (Some ''bob@example.com'')
     = Some (ex_user 2 ''bob@example.com'')"
    using T[where rq = "ex_post [(''email'', ''bob@example.com''), (''code'', ''424242'')]"
        and data = "[(''email'', ''bob@example.com''), (''code'', ''424242'')]"
        and u = ?bob and a = ?ab]
    by (simp add: ex_defs orm_defs truthy_def)
  from 1 2 3 show ?thesis by blast
qed

lemma auth_activate_exhausted_state:
  assumes wf: "body rq = Some data"
    and ex: "snd (auth_activate E rq s) = Response (jsonify_error ''Too many wrong tries'') 410"
  shows "\<exists>u a. User_get_by_or (users (live s)) (sanitize_email E (map_of data ''email''))
                 (canonicalize_email E (sanitize_email E (map_of data ''email''))) = Some u
             \<and> \<not> activated u
             \<and> AccountActivation_get_by (activations (live s)) (uid u) = Some a
             \<and> fst (auth_activate E rq s) =
                 Session_commit (AccountActivation_delete (aid a)
                   (Session_commit (AccountActivation_write (a\<lparr>tries := tries a - 1\<rparr>) s)))"
  using assms
  by (auto simp: auth_activate_def Let_def jsonify_error_def jsonify_msg_def
      split: option.splits if_splits)

lemma find_filter_distinct_None:
  assumes "find (\<lambda>r. f r = i) xs = Some a" "distinct (map f xs)"
  shows "find (\<lambda>r. f r = i) (filter (\<lambda>r. g r \<noteq> g a) xs) = None"
proof -
  have a: "a \<in> set xs" "f a = i"
    using assms(1) by (auto dest: find_Some_mem find_Some_holds)
  have "r = a" if "r \<in> set xs" "f r = i" for r
    using that a assms(2) by (auto simp: distinct_map dest: inj_onD)
  then show ?thesis by (auto simp: find_None_iff)
qed

text \<open>
  C4, as the code has it. Once a wrong code has used the last try (the answer was 410
  and the record is gone), any later submission for that user, the right code
  included, gets the generic 400 "Wrong email or code" and changes nothing: no record
  is left to tell exhaustion from a wrong email. The user has at most one activation
  record, as the data model requires.
\<close>

theorem auth_activate_after_exhaustion:
  assumes wf: "body rq = Some data"
    and ex: "snd (auth_activate E rq s) = Response (jsonify_error ''Too many wrong tries'') 410"
    and one: "distinct (map act_user_id (activations (live s)))"
    and wf': "body rq' = Some data'" "map_of data' ''email'' = map_of data ''email''"
      "truthy (map_of data' ''code'')"
  shows "auth_activate E rq' (fst (auth_activate E rq s))
           = (fst (auth_activate E rq s), Response (jsonify_error ''Wrong email or code'') 400)"
proof -
  from auth_activate_exhausted_state[OF wf ex] obtain u a where
    u: "User_get_by_or (users (live s)) (sanitize_email E (map_of data ''email''))
          (canonicalize_email E (sanitize_email E (map_of data ''email''))) = Some u"
    and na: "\<not> activated u"
    and a: "AccountActivation_get_by (activations (live s)) (uid u) = Some a"
    and st: "fst (auth_activate E rq s) =
               Session_commit (AccountActivation_delete (aid a)
                 (Session_commit (AccountActivation_write (a\<lparr>tries := tries a - 1\<rparr>) s)))"
    by blast
  have gone: "AccountActivation_get_by (activations (live (fst (auth_activate E rq s)))) (uid u) = None"
    using find_filter_distinct_None[OF a[unfolded AccountActivation_get_by_def] one, of aid]
    by (simp add: st Session_commit_def AccountActivation_delete_def AccountActivation_write_def
        AccountActivation_get_by_def filter_write_row)
  have us: "users (live (fst (auth_activate E rq s))) = users (live s)"
    by (simp add: st Session_commit_def AccountActivation_delete_def AccountActivation_write_def)
  have ne: "data' \<noteq> []" using wf'(3) by (auto simp: truthy_def)
  have te: "truthy (map_of data' ''email'')"
    using wf wf'(2) ex
    by (auto simp: auth_activate_def Let_def split: option.splits if_splits)
  show ?thesis
    using wf' ne te u na gone us by (simp add: auth_activate_def Let_def)
qed

text \<open>
  C4 as stated fails: bob's last try is used by a wrong code (410), and his right code
  is then answered 400 "Wrong email or code", not 410.
\<close>

theorem auth_activate_after_exhaustion_counterexample:
  "snd (auth_activate ex_env (ex_post [(''email'', ''bob@example.com''), (''code'', ''000000'')]) ex_store)
     = Response (jsonify_error ''Too many wrong tries'') 410
   \<and> snd (auth_activate ex_env (ex_post [(''email'', ''bob@example.com''), (''code'', ''424242'')])
        (fst (auth_activate ex_env (ex_post [(''email'', ''bob@example.com''), (''code'', ''000000'')]) ex_store)))
     = Response (jsonify_error ''Wrong email or code'') 400
   \<and> snd (auth_activate ex_env (ex_post [(''email'', ''bob@example.com''), (''code'', ''424242'')])
        (fst (auth_activate ex_env (ex_post [(''email'', ''bob@example.com''), (''code'', ''000000'')]) ex_store)))
     \<noteq> Response (jsonify_error ''Too many wrong tries'') 410"
  by (simp add: auth_activate_def ex_defs orm_defs truthy_def Let_def jsonify_error_def)

theorem auth_activate_after_exhaustion_witness:
  "snd (auth_activate ex_env (ex_post [(''email'', ''bob@example.com''), (''code'', ''000000'')]) ex_store)
     = Response (jsonify_error ''Too many wrong tries'') 410
   \<and> distinct (map act_user_id (activations (live ex_store)))
   \<and> auth_activate ex_env (ex_post [(''email'', ''bob@example.com''), (''code'', ''424242'')])
        (fst (auth_activate ex_env (ex_post [(''email'', ''bob@example.com''), (''code'', ''000000'')]) ex_store))
     = (fst (auth_activate ex_env (ex_post [(''email'', ''bob@example.com''), (''code'', ''000000'')]) ex_store),
        Response (jsonify_error ''Wrong email or code'') 400)"
proof -
  let ?rq = "ex_post [(''email'', ''bob@example.com''), (''code'', ''000000'')]"
  let ?rq' = "ex_post [(''email'', ''bob@example.com''), (''code'', ''424242'')]"
  have ex: "snd (auth_activate ex_env ?rq ex_store) = Response (jsonify_error ''Too many wrong tries'') 410"
    by (simp add: auth_activate_def ex_defs orm_defs truthy_def Let_def)
  have one: "distinct (map act_user_id (activations (live ex_store)))"
    by (simp add: ex_defs)
  have "auth_activate ex_env ?rq' (fst (auth_activate ex_env ?rq ex_store))
          = (fst (auth_activate ex_env ?rq ex_store), Response (jsonify_error ''Wrong email or code'') 400)"
    by (rule auth_activate_after_exhaustion[OF _ ex one, where data' = "[(''email'', ''bob@example.com''), (''code'', ''424242'')]"
          and data = "[(''email'', ''bob@example.com''), (''code'', ''000000'')]"])
       (simp_all add: ex_post_def truthy_def)
  with ex one show ?thesis by blast
qed

section \<open>Login failures\<close>

text \<open>
  C10. \<open>auth_login\<close> gives one and the same answer, 400 "Email or password incorrect",
  and sends the same event, when no user has the submitted email and when a user has
  it and the password check fails; the tables stay as they were.
\<close>

theorem auth_login_failure_uniform:
  assumes wf: "body rq = Some data" "truthy (map_of data ''email'')"
      "truthy (map_of data ''password'')" "truthy (map_of data ''device'')"
    and unknown: "User_get_by_or (users (live s)) (sanitize_email E (map_of data ''email''))
        (canonicalize_email E (sanitize_email E (map_of data ''email''))) = None"
    and known: "User_get_by_or (users (live s')) (sanitize_email E (map_of data ''email''))
        (canonicalize_email E (sanitize_email E (map_of data ''email''))) = Some u"
    and wrong: "\<not> check_password E u (map_of data ''password'')"
  shows "auth_login E rnd rq s
           = (emit (LoginEvent Failed) s, Response (jsonify_error ''Email or password incorrect'') 400)
       \<and> auth_login E rnd rq s'
           = (emit (LoginEvent Failed) s', Response (jsonify_error ''Email or password incorrect'') 400)
       \<and> snd (auth_login E rnd rq s) = snd (auth_login E rnd rq s')"
proof -
  have ne: "data \<noteq> []" using wf(2) by (auto simp: truthy_def)
  show ?thesis using wf ne unknown known wrong by (simp add: auth_login_def Let_def)
qed

theorem auth_login_failure_uniform_witness:
  "auth_login ex_env ''new''
      (ex_post [(''email'', ''alice@example.com''), (''password'', ''guess''), (''device'', ''phone'')])
      (ex_store\<lparr>live := (live ex_store)\<lparr>users := []\<rparr>\<rparr>)
     = (emit (LoginEvent Failed) (ex_store\<lparr>live := (live ex_store)\<lparr>users := []\<rparr>\<rparr>),
        Response (jsonify_error ''Email or password incorrect'') 400)
   \<and> auth_login ex_env ''new''
      (ex_post [(''email'', ''alice@example.com''), (''password'', ''guess''), (''device'', ''phone'')])
      ex_store
     = (emit (LoginEvent Failed) ex_store, Response (jsonify_error ''Email or password incorrect'') 400)"
  using auth_login_failure_uniform[where E = ex_env and rnd = "''new''"
      and rq = "ex_post [(''email'', ''alice@example.com''), (''password'', ''guess''), (''device'', ''phone'')]"
      and data = "[(''email'', ''alice@example.com''), (''password'', ''guess''), (''device'', ''phone'')]"
      and s = "ex_store\<lparr>live := (live ex_store)\<lparr>users := []\<rparr>\<rparr>" and s' = ex_store
      and u = "ex_user 1 ''alice@example.com''"]
  by (simp add: ex_defs orm_defs truthy_def)

section \<open>Asking for another activation code\<close>

text \<open>
  C6, as the code has it. For a body that is not empty, \<open>auth_reactivate\<close> answers 200
  only when the email is that of a user who is not activated yet. When no user has the
  email, and when the user is activated already, it answers the same 400 "Something went
  wrong" and changes nothing.
\<close>

theorem auth_reactivate_outcomes:
  assumes wf: "body rq = Some data" "data \<noteq> []"
  shows "(case User_get_by_or (users (live s)) (sanitize_email E (map_of data ''email''))
                (canonicalize_email E (map_of data ''email'')) of
            None \<Rightarrow>
              auth_reactivate E rnd rq s = (s, Response (jsonify_error ''Something went wrong'') 400)
          | Some u \<Rightarrow>
              if activated u then
                auth_reactivate E rnd rq s = (s, Response (jsonify_error ''Something went wrong'') 400)
              else
                snd (auth_reactivate E rnd rq s)
                  = Response (jsonify_msg ''User needs to confirm their account'') 200)"
  using wf by (simp add: auth_reactivate_def Let_def split: option.splits)

text \<open>
  C6 as stated fails: for an email that no user has, the answer is the error 400, while
  erin, who is not activated, gets 200.
\<close>

theorem auth_reactivate_outcomes_counterexample:
  "snd (auth_reactivate ex_env ''654321'' (ex_post [(''email'', ''nobody@example.com'')]) ex_store)
     = Response (jsonify_error ''Something went wrong'') 400
   \<and> snd (auth_reactivate ex_env ''654321'' (ex_post [(''email'', ''erin@example.com'')]) ex_store)
     = Response (jsonify_msg ''User needs to confirm their account'') 200"
  by (simp add: auth_reactivate_def ex_defs orm_defs Let_def)

theorem auth_reactivate_outcomes_witness:
  "auth_reactivate ex_env ''654321'' (ex_post [(''email'', ''nobody@example.com'')]) ex_store
     = (ex_store, Response (jsonify_error ''Something went wrong'') 400)
   \<and> auth_reactivate ex_env ''654321'' (ex_post [(''email'', ''alice@example.com'')]) ex_store
     = (ex_store, Response (jsonify_error ''Something went wrong'') 400)
   \<and> snd (auth_reactivate ex_env ''654321'' (ex_post [(''email'', ''erin@example.com'')]) ex_store)
     = Response (jsonify_msg ''User needs to confirm their account'') 200"
proof -
  note T = auth_reactivate_outcomes[where E = ex_env and s = ex_store and rnd = "''654321''"]
  have 1: "auth_reactivate ex_env ''654321'' (ex_post [(''email'', ''nobody@example.com'')]) ex_store
     = (ex_store, Response (jsonify_error ''Something went wrong'') 400)"
    using T[where rq = "ex_post [(''email'', ''nobody@example.com'')]"
        and data = "[(''email'', ''nobody@example.com'')]"]
    by (simp add: ex_defs orm_defs)
  have 2: "auth_reactivate ex_env ''654321'' (ex_post [(''email'', ''alice@example.com'')]) ex_store
     = (ex_store, Response (jsonify_error ''Something went wrong'') 400)"
    using T[where rq = "ex_post [(''email'', ''alice@example.com'')]"
        and data = "[(''email'', ''alice@example.com'')]"]
    by (simp add: ex_defs orm_defs)
  have 3: "snd (auth_reactivate ex_env ''654321'' (ex_post [(''email'', ''erin@example.com'')]) ex_store)
     = Response (jsonify_msg ''User needs to confirm their account'') 200"
    using T[where rq = "ex_post [(''email'', ''erin@example.com'')]"
        and data = "[(''email'', ''erin@example.com'')]"]
    by (simp add: ex_defs orm_defs)
  from 1 2 3 show ?thesis by blast
qed

section \<open>The MFA challenge\<close>

text \<open>
  C7, as the code has it. For a body with token, key and device, \<open>auth_mfa\<close> answers
  400 "Invalid mfa_key" and changes nothing when the key does not unsign, when what it
  signs is not an integer, and when no user has that id. For a user without MFA it
  answers another error, 400 "This endpoint should only be used by users who enable
  MFA", and changes nothing. For a user with MFA whose token does not verify with
  \<open>valid_window = 2\<close> it sends the invalid-TOTP email and answers 400 "Wrong TOTP
  Token"; no key is made and nobody is logged in.
\<close>

theorem auth_mfa_rejections:
  assumes wf: "body rq = Some data" "truthy (map_of data ''mfa_token'')"
      "truthy (map_of data ''mfa_key'')" "truthy (map_of data ''device'')"
  shows "(signer_unsign E (map_of data ''mfa_key'') = None \<longrightarrow>
            auth_mfa E rnd rq s = (s, Response (jsonify_error ''Invalid mfa_key'') 400))
       \<and> (\<forall>p. signer_unsign E (map_of data ''mfa_key'') = Some p \<and> py_int E p = None \<longrightarrow>
            auth_mfa E rnd rq s = (s, Response (jsonify_error ''Invalid mfa_key'') 400))
       \<and> (\<forall>p i. signer_unsign E (map_of data ''mfa_key'') = Some p \<and> py_int E p = Some i
              \<and> User_get (users (live s)) i = None \<longrightarrow>
            auth_mfa E rnd rq s = (s, Response (jsonify_error ''Invalid mfa_key'') 400))
       \<and> (\<forall>p i u. signer_unsign E (map_of data ''mfa_key'') = Some p \<and> py_int E p = Some i
              \<and> User_get (users (live s)) i = Some u \<and> \<not> enable_otp u \<longrightarrow>
            auth_mfa E rnd rq s
              = (s, Response (jsonify_error
                      ''This endpoint should only be used by users who enable MFA'') 400))
       \<and> (\<forall>p i u. signer_unsign E (map_of data ''mfa_key'') = Some p \<and> py_int E p = Some i
              \<and> User_get (users (live s)) i = Some u \<and> enable_otp u
              \<and> \<not> totp_verify E (otp_secret u) (map_of data ''mfa_token'') 2 \<longrightarrow>
            auth_mfa E rnd rq s
              = (emit (InvalidTotpLoginEmail (uid u)) s,
                 Response (jsonify_error ''Wrong TOTP Token'') 400))"
proof -
  have ne: "data \<noteq> []" using wf(2) by (auto simp: truthy_def)
  show ?thesis using wf ne by (simp add: auth_mfa_def Let_def)
qed

text \<open>
  C7 as stated fails for a user without MFA: alice's key is signed and names her, and
  the answer is not the one for an invalid key.
\<close>

theorem auth_mfa_rejections_counterexample:
  "snd (auth_mfa ex_env ''new''
          (ex_post [(''mfa_token'', ''123456''), (''mfa_key'', ''sig:1''), (''device'', ''phone'')])
          ex_store)
     = Response (jsonify_error ''This endpoint should only be used by users who enable MFA'') 400
   \<and> snd (auth_mfa ex_env ''new''
          (ex_post [(''mfa_token'', ''123456''), (''mfa_key'', ''sig:1''), (''device'', ''phone'')])
          ex_store)
     \<noteq> Response (jsonify_error ''Invalid mfa_key'') 400"
  by (simp add: auth_mfa_def ex_defs orm_defs truthy_def Let_def jsonify_error_def)

theorem auth_mfa_rejections_witness:
  "auth_mfa ex_env ''new''
      (ex_post [(''mfa_token'', ''123456''), (''mfa_key'', ''forged''), (''device'', ''phone'')]) ex_store
     = (ex_store, Response (jsonify_error ''Invalid mfa_key'') 400)
   \<and> auth_mfa ex_env ''new''
      (ex_post [(''mfa_token'', ''123456''), (''mfa_key'', ''sig:abc''), (''device'', ''phone'')]) ex_store
     = (ex_store, Response (jsonify_error ''Invalid mfa_key'') 400)
   \<and> auth_mfa ex_env ''new''
      (ex_post [(''mfa_token'', ''123456''), (''mfa_key'', ''sig:9''), (''device'', ''phone'')]) ex_store
     = (ex_store, Response (jsonify_error ''Invalid mfa_key'') 400)
   \<and> auth_mfa ex_env ''new''
      (ex_post [(''mfa_token'', ''123456''), (''mfa_key'', ''sig:1''), (''device'', ''phone'')]) ex_store
     = (ex_store, Response (jsonify_error
          ''This endpoint should only be used by users who enable MFA'') 400)
   \<and> auth_mfa ex_env ''new''
      (ex_post [(''mfa_token'', ''000000''), (''mfa_key'', ''sig:3''), (''device'', ''phone'')]) ex_store
     = (emit (InvalidTotpLoginEmail 3) ex_store, Response (jsonify_error ''Wrong TOTP Token'') 400)"
proof -
  note T = auth_mfa_rejections[where E = ex_env and s = ex_store and rnd = "''new''"]
  have 1: "auth_mfa ex_env ''new''
      (ex_post [(''mfa_token'', ''123456''), (''mfa_key'', ''forged''), (''device'', ''phone'')]) ex_store
     = (ex_store, Response (jsonify_error ''Invalid mfa_key'') 400)"
    using T[where rq = "ex_post [(''mfa_token'', ''123456''), (''mfa_key'', ''forged''), (''device'', ''phone'')]"
        and data = "[(''mfa_token'', ''123456''), (''mfa_key'', ''forged''), (''device'', ''phone'')]"]
    by (simp add: ex_env_def ex_post_def truthy_def)
  have 2: "auth_mfa ex_env ''new''
      (ex_post [(''mfa_token'', ''123456''), (''mfa_key'', ''sig:abc''), (''device'', ''phone'')]) ex_store
     = (ex_store, Response (jsonify_error ''Invalid mfa_key'') 400)"
    using T[where rq = "ex_post [(''mfa_token'', ''123456''), (''mfa_key'', ''sig:abc''), (''device'', ''phone'')]"
        and data = "[(''mfa_token'', ''123456''), (''mfa_key'', ''sig:abc''), (''device'', ''phone'')]"]
    by (simp add: ex_env_def ex_post_def truthy_def)
  have 3: "auth_mfa ex_env ''new''
      (ex_post [(''mfa_token'', ''123456''), (''mfa_key'', ''sig:9''), (''device'', ''phone'')]) ex_store
     = (ex_store, Response (jsonify_error ''Invalid mfa_key'') 400)"
    using T[where rq = "ex_post [(''mfa_token'', ''123456''), (''mfa_key'', ''sig:9''), (''device'', ''phone'')]"
        and data = "[(''mfa_token'', ''123456''), (''mfa_key'', ''sig:9''), (''device'', ''phone'')]"]
    by (simp add: ex_defs orm_defs truthy_def)
  have 4: "auth_mfa ex_env ''new''
      (ex_post [(''mfa_token'', ''123456''), (''mfa_key'', ''sig:1''), (''device'', ''phone'')]) ex_store
     = (ex_store, Response (jsonify_error
          ''This endpoint should only be used by users who enable MFA'') 400)"
    using T[where rq = "ex_post [(''mfa_token'', ''123456''), (''mfa_key'', ''sig:1''), (''device'', ''phone'')]"
        and data = "[(''mfa_token'', ''123456''), (''mfa_key'', ''sig:1''), (''device'', ''phone'')]"]
    by (simp add: ex_defs orm_defs truthy_def)
  have 5: "auth_mfa ex_env ''new''
      (ex_post [(''mfa_token'', ''000000''), (''mfa_key'', ''sig:3''), (''device'', ''phone'')]) ex_store
     = (emit (InvalidTotpLoginEmail 3) ex_store, Response (jsonify_error ''Wrong TOTP Token'') 400)"
    using T[where rq = "ex_post [(''mfa_token'', ''000000''), (''mfa_key'', ''sig:3''), (''device'', ''phone'')]"
        and data = "[(''mfa_token'', ''000000''), (''mfa_key'', ''sig:3''), (''device'', ''phone'')]"]
    by (simp add: ex_defs orm_defs truthy_def)
  from 1 2 3 4 5 show ?thesis by blast
qed

section \<open>Issuing keys\<close>

lemma one_key_per_device_append:
  assumes "one_key_per_device ks" "ApiKey_get_by ks (key_user_id k) (key_name k) = None"
  shows "one_key_per_device (ks @ [k])"
  using assms by (auto simp: one_key_per_device_def ApiKey_get_by_def find_None_iff)

lemma ApiKey_get_by_append:
  assumes "ApiKey_get_by ks i n = None" "key_user_id k = i" "key_name k = n"
  shows "ApiKey_get_by (ks @ [k]) i n = Some k"
  using assms unfolding ApiKey_get_by_def by (induction ks) (auto split: if_splits)

text \<open>What \<open>auth_payload\<close> does when the user has no MFA: the two cases of its lookup.\<close>

lemma auth_payload_found:
  assumes "\<not> enable_otp u" "ApiKey_get_by (api_keys (live s)) (uid u) device = Some k"
  shows "auth_payload E rnd u device s =
     (emit (LoginUser (uid u)) s,
      [(''name'', JStr (name_or_empty u)), (''email'', JStr (email u)),
       (''mfa_enabled'', JBool False), (''mfa_key'', JNull), (''api_key'', JStr (key_code k))])"
  using assms by (simp add: auth_payload_def)

lemma auth_payload_created:
  assumes "\<not> enable_otp u" "ApiKey_get_by (api_keys (live s)) (uid u) device = None"
  shows "auth_payload E rnd u device s =
     (emit (LoginUser (uid u)) (Session_commit (fst (ApiKey_create rnd (uid u) device s))),
      [(''name'', JStr (name_or_empty u)), (''email'', JStr (email u)),
       (''mfa_enabled'', JBool False), (''mfa_key'', JNull), (''api_key'', JStr rnd)])"
  using assms by (simp add: auth_payload_def ApiKey_create_def Let_def)

lemma auth_payload_otp:
  assumes "enable_otp u"
  shows "auth_payload E rnd u device s =
     (s, [(''name'', JStr (name_or_empty u)), (''email'', JStr (email u)),
       (''mfa_enabled'', JBool True), (''mfa_key'', JStr (signer_sign E (py_str E (uid u)))),
       (''api_key'', JNull)])"
  using assms by (simp add: auth_payload_def)

lemma ApiKey_create_keys:
  "api_keys (live (fst (ApiKey_create rnd i n s))) =
     api_keys (live s) @ [\<lparr>kid = next_id (map kid (api_keys (live s))), key_user_id = i,
       key_code = rnd, key_name = n, last_used = None, key_times = 0, sudo_mode_at = None\<rparr>]"
  by (simp add: ApiKey_create_def Let_def)

lemma auth_payload_invariant:
  assumes "one_key_per_device (api_keys (live s))" "one_key_per_device (api_keys (committed s))"
  shows "one_key_per_device (api_keys (live (fst (auth_payload E rnd u device s))))
       \<and> one_key_per_device (api_keys (committed (fst (auth_payload E rnd u device s))))"
proof (cases "enable_otp u")
  case True
  with assms show ?thesis by (simp add: auth_payload_otp)
next
  case False
  show ?thesis
  proof (cases "ApiKey_get_by (api_keys (live s)) (uid u) device")
    case None
    have "one_key_per_device (api_keys (live (fst (ApiKey_create rnd (uid u) device s))))"
      unfolding ApiKey_create_keys using assms(1) None
      by (intro one_key_per_device_append) simp_all
    then show ?thesis
      by (simp add: auth_payload_created[OF False None] emit_def Session_commit_def)
  next
    case (Some k)
    with assms show ?thesis by (simp add: auth_payload_found[OF False Some] emit_def)
  qed
qed

lemma auth_login_invariant:
  assumes "one_key_per_device (api_keys (live s))" "one_key_per_device (api_keys (committed s))"
  shows "one_key_per_device (api_keys (live (fst (auth_login E rnd rq s))))
       \<and> one_key_per_device (api_keys (committed (fst (auth_login E rnd rq s))))"
proof -
  have e: "one_key_per_device (api_keys (live (emit x s)))
         \<and> one_key_per_device (api_keys (committed (emit x s)))" for x
    using assms by (simp add: emit_def)
  have p: "one_key_per_device (api_keys (live (fst (auth_payload E rnd u d (emit x s)))))
       \<and> one_key_per_device (api_keys (committed (fst (auth_payload E rnd u d (emit x s)))))" for u d x
    using e[of x] by (intro auth_payload_invariant) simp_all
  show ?thesis
    using assms e p
    by (auto simp: auth_login_def Let_def split_beta split: option.splits)
qed


lemma ApiKey_create_invariant:
  assumes "one_key_per_device (api_keys (live s))" "ApiKey_get_by (api_keys (live s)) i n = None"
  shows "one_key_per_device (api_keys (live (fst (ApiKey_create rnd i n s))))"
  unfolding ApiKey_create_keys using assms by (intro one_key_per_device_append) simp_all

lemma auth_mfa_invariant:
  assumes "one_key_per_device (api_keys (live s))" "one_key_per_device (api_keys (committed s))"
  shows "one_key_per_device (api_keys (live (fst (auth_mfa E rnd rq s))))
       \<and> one_key_per_device (api_keys (committed (fst (auth_mfa E rnd rq s))))"
proof -
  have c: "one_key_per_device (api_keys (live (fst (ApiKey_create rnd i n s))))"
    if "ApiKey_get_by (api_keys (live s)) i n = None" for i n
    using assms(1) that by (rule ApiKey_create_invariant)
  show ?thesis
    using assms c
    by (auto simp: auth_mfa_def Let_def split_beta emit_def Session_commit_def
        split: option.splits)
qed

lemma create_api_key_granted:
  assumes "authorize_request E now rq s = (s1, Granted g)"
    and "body rq = Some data" "map_of data ''device'' = Some d"
  shows "create_api_key E rnd now rq s =
           (Session_commit (fst (ApiKey_create rnd (uid (g_user g)) (Some d) s1)),
            Response [(''api_key'', JStr rnd)] 201)"
proof -
  have "data \<noteq> []" using assms(3) by auto
  then show ?thesis
    using assms
    by (simp add: create_api_key_def require_api_auth_def create_api_key_view_def
        ApiKey_create_def Let_def)
qed

text \<open>What \<open>auth_mfa\<close> does once the key and the token have been verified.\<close>

lemma auth_mfa_verified:
  assumes wf: "body rq = Some data" "truthy (map_of data ''mfa_token'')"
      "truthy (map_of data ''mfa_key'')" "truthy (map_of data ''device'')"
    and tok: "signer_unsign E (map_of data ''mfa_key'') = Some p" "py_int E p = Some i"
    and usr: "User_get (users (live s)) i = Some v" "enable_otp v"
    and otp: "totp_verify E (otp_secret v) (map_of data ''mfa_token'') 2"
  shows "auth_mfa E rnd rq s =
     (case ApiKey_get_by (api_keys (live s)) (uid v) (map_of data ''device'') of
        Some k \<Rightarrow>
          (emit (LoginUser (uid v)) s,
           Response [(''name'', JStr (name_or_empty v)), (''email'', JStr (email v)),
                     (''api_key'', JStr (key_code k))] 200)
      | None \<Rightarrow>
          (emit (LoginUser (uid v))
             (Session_commit (fst (ApiKey_create rnd (uid v) (map_of data ''device'') s))),
           Response [(''name'', JStr (name_or_empty v)), (''email'', JStr (email v)),
                     (''api_key'', JStr rnd)] 200))"
proof -
  have ne: "data \<noteq> []" using wf(2) by (auto simp: truthy_def)
  show ?thesis
    using wf ne tok usr otp
    by (simp add: auth_mfa_def Let_def ApiKey_create_def split: option.splits)
qed

text \<open>
  C5, as the code has it. \<open>auth_payload\<close> (the login flows) and \<open>auth_mfa\<close> look the key
  of the user and the device up before they make one, so they keep the invariant, and
  both answer with the key that is there. \<open>create_api_key\<close> does not look:
  whenever the request is authorized and names a device it appends a new key for the
  user and that device and answers 201 with its code.
\<close>

theorem issuing_keys_one_per_device:
  assumes inv: "one_key_per_device (api_keys (live s))" "one_key_per_device (api_keys (committed s))"
  shows "one_key_per_device (api_keys (live (fst (auth_payload E rnd u device s))))
       \<and> one_key_per_device (api_keys (committed (fst (auth_payload E rnd u device s))))
       \<and> (\<forall>k. \<not> enable_otp u \<and> ApiKey_get_by (api_keys (live s)) (uid u) device = Some k \<longrightarrow>
             api_keys (live (fst (auth_payload E rnd u device s))) = api_keys (live s)
           \<and> map_of (snd (auth_payload E rnd u device s)) ''api_key'' = Some (JStr (key_code k)))
       \<and> one_key_per_device (api_keys (live (fst (auth_login E rnd rq s))))
       \<and> one_key_per_device (api_keys (committed (fst (auth_login E rnd rq s))))
       \<and> one_key_per_device (api_keys (live (fst (auth_mfa E rnd rq s))))
       \<and> one_key_per_device (api_keys (committed (fst (auth_mfa E rnd rq s))))
       \<and> (\<forall>s1 g data d. authorize_request E now rq s = (s1, Granted g)
              \<and> body rq = Some data \<and> map_of data ''device'' = Some d \<longrightarrow>
             snd (create_api_key E rnd now rq s) = Response [(''api_key'', JStr rnd)] 201
           \<and> api_keys (committed (fst (create_api_key E rnd now rq s)))
               = api_keys (live s1) @
                   [\<lparr>kid = next_id (map kid (api_keys (live s1))), key_user_id = uid (g_user g),
                     key_code = rnd, key_name = Some d, last_used = None, key_times = 0,
                     sudo_mode_at = None\<rparr>])
       \<and> (\<forall>data p i v k. body rq = Some data \<and> truthy (map_of data ''mfa_token'')
              \<and> truthy (map_of data ''mfa_key'') \<and> truthy (map_of data ''device'')
              \<and> signer_unsign E (map_of data ''mfa_key'') = Some p \<and> py_int E p = Some i
              \<and> User_get (users (live s)) i = Some v \<and> enable_otp v
              \<and> totp_verify E (otp_secret v) (map_of data ''mfa_token'') 2
              \<and> ApiKey_get_by (api_keys (live s)) (uid v) (map_of data ''device'') = Some k \<longrightarrow>
             api_keys (live (fst (auth_mfa E rnd rq s))) = api_keys (live s)
           \<and> snd (auth_mfa E rnd rq s)
               = Response [(''name'', JStr (name_or_empty v)), (''email'', JStr (email v)),
                           (''api_key'', JStr (key_code k))] 200)"
proof -
  have 3: "api_keys (live (fst (auth_mfa E rnd rq s))) = api_keys (live s)
           \<and> snd (auth_mfa E rnd rq s)
               = Response [(''name'', JStr (name_or_empty v)), (''email'', JStr (email v)),
                           (''api_key'', JStr (key_code k))] 200"
    if "body rq = Some data" "truthy (map_of data ''mfa_token'')"
       "truthy (map_of data ''mfa_key'')" "truthy (map_of data ''device'')"
       "signer_unsign E (map_of data ''mfa_key'') = Some p" "py_int E p = Some i"
       "User_get (users (live s)) i = Some v" "enable_otp v"
       "totp_verify E (otp_secret v) (map_of data ''mfa_token'') 2"
       "ApiKey_get_by (api_keys (live s)) (uid v) (map_of data ''device'') = Some k"
    for data p i v k
    using auth_mfa_verified[OF that(1-9), of rnd] that(10) by (simp add: emit_def)
  have 1: "\<not> enable_otp u \<and> ApiKey_get_by (api_keys (live s)) (uid u) device = Some k \<longrightarrow>
             api_keys (live (fst (auth_payload E rnd u device s))) = api_keys (live s)
           \<and> map_of (snd (auth_payload E rnd u device s)) ''api_key'' = Some (JStr (key_code k))" for k
    by (auto simp: auth_payload_found emit_def)
  have 2: "snd (create_api_key E rnd now rq s) = Response [(''api_key'', JStr rnd)] 201
           \<and> api_keys (committed (fst (create_api_key E rnd now rq s)))
               = api_keys (live s1) @
                   [\<lparr>kid = next_id (map kid (api_keys (live s1))), key_user_id = uid (g_user g),
                     key_code = rnd, key_name = Some d, last_used = None, key_times = 0,
                     sudo_mode_at = None\<rparr>]"
    if "authorize_request E now rq s = (s1, Granted g)" "body rq = Some data"
       "map_of data ''device'' = Some d" for s1 g data d
    by (simp add: create_api_key_granted[OF that] Session_commit_def ApiKey_create_keys)
  from auth_payload_invariant[OF inv] auth_login_invariant[OF inv] auth_mfa_invariant[OF inv] 1 2 3
  show ?thesis by blast
qed

text \<open>
  C5 as stated fails: alice has a key for her phone, and \<open>POST /api_key\<close> for the same
  device answers 201 and leaves her two.
\<close>

theorem issuing_keys_one_per_device_counterexample:
  "one_key_per_device (api_keys (committed ex_store))
   \<and> snd (create_api_key ex_env ''new'' 1000 (ex_post_with_key ''key-alice'' [(''device'', ''phone'')])
          ex_store)
       = Response [(''api_key'', JStr ''new'')] 201
   \<and> \<not> one_key_per_device (api_keys (committed (fst (create_api_key ex_env ''new'' 1000
          (ex_post_with_key ''key-alice'' [(''device'', ''phone'')]) ex_store))))"
  by (simp add: create_api_key_def require_api_auth_def create_api_key_view_def
      authorize_request_def account_checks_def one_key_per_device_def ex_defs orm_defs Let_def)

theorem issuing_keys_one_per_device_witness:
  "one_key_per_device (api_keys (live ex_store))
   \<and> one_key_per_device (api_keys (committed ex_store))
   \<and> one_key_per_device (api_keys (live (fst (auth_login ex_env ''new''
        (ex_post [(''email'', ''alice@example.com''), (''password'', ''hunter22''), (''device'', ''tablet'')])
        ex_store))))
   \<and> map_of (snd (auth_payload ex_env ''new'' (ex_user 1 ''alice@example.com'') (Some ''phone'') ex_store))
        ''api_key'' = Some (JStr ''key-alice'')
   \<and> snd (create_api_key ex_env ''new'' 1000 (ex_post_with_key ''key-alice'' [(''device'', ''tablet'')])
          ex_store)
       = Response [(''api_key'', JStr ''new'')] 201
   \<and> map (\<lambda>k. (key_user_id k, key_name k, key_code k))
        (api_keys (committed (fst (create_api_key ex_env ''new'' 1000
           (ex_post_with_key ''key-alice'' [(''device'', ''tablet'')]) ex_store))))
       = [(1, Some ''phone'', ''key-alice''), (4, Some ''laptop'', ''key-dave''),
          (3, Some ''phone'', ''key-carol''), (6, Some ''phone'', ''key-frank''),
          (1, Some ''tablet'', ''new'')]
   \<and> snd (auth_mfa ex_env ''new''
          (ex_post [(''mfa_token'', ''123456''), (''mfa_key'', ''sig:3''), (''device'', ''phone'')])
          ex_store)
       = Response [(''name'', JStr []), (''email'', JStr ''carol@example.com''),
                   (''api_key'', JStr ''key-carol'')] 200"
proof -
  let ?rq = "ex_post_with_key ''key-alice'' [(''device'', ''tablet'')]"
  let ?rqm = "ex_post [(''mfa_token'', ''123456''), (''mfa_key'', ''sig:3''), (''device'', ''phone'')]"
  let ?carol = "(ex_user 3 ''carol@example.com'')\<lparr>enable_otp := True, otp_secret := Some ''JBSWY3DP''\<rparr>"
  let ?s1 = "fst (authorize_request ex_env 1000 ?rq ex_store)"
  let ?g = "\<lparr>g_user = ex_user 1 ''alice@example.com'',
             g_api_key = Some ((ex_key 1 1 ''key-alice'' ''phone'')\<lparr>last_used := Some 1000, key_times := 8\<rparr>)\<rparr>"
  have a: "authorize_request ex_env 1000 ?rq ex_store = (?s1, Granted ?g)"
    by (simp add: authorize_request_def account_checks_def ex_defs orm_defs Let_def)
  have ks: "map (\<lambda>k. (key_user_id k, key_name k, key_code k)) (api_keys (live ?s1))
      = [(1, Some ''phone'', ''key-alice''), (4, Some ''laptop'', ''key-dave''),
         (3, Some ''phone'', ''key-carol''), (6, Some ''phone'', ''key-frank'')]"
    by (simp add: authorize_request_def account_checks_def ex_defs orm_defs Let_def)
  have inv: "one_key_per_device (api_keys (live ex_store))"
      "one_key_per_device (api_keys (committed ex_store))"
    by (simp_all add: one_key_per_device_def ex_defs)
  have k: "ApiKey_get_by (api_keys (live ex_store)) (uid (ex_user 1 ''alice@example.com'')) (Some ''phone'')
             = Some (ex_key 1 1 ''key-alice'' ''phone'')"
    by (simp add: ex_defs orm_defs)
  have n: "\<not> enable_otp (ex_user 1 ''alice@example.com'')" by (simp add: ex_user_def)
  from issuing_keys_one_per_device[OF inv, of ex_env "''new''" "ex_user 1 ''alice@example.com''"
      "Some ''phone''"
      "ex_post [(''email'', ''alice@example.com''), (''password'', ''hunter22''), (''device'', ''tablet'')]"
      1000] inv k n
  have 1: "one_key_per_device (api_keys (live (fst (auth_login ex_env ''new''
        (ex_post [(''email'', ''alice@example.com''), (''password'', ''hunter22''), (''device'', ''tablet'')])
        ex_store))))
   \<and> map_of (snd (auth_payload ex_env ''new'' (ex_user 1 ''alice@example.com'') (Some ''phone'') ex_store))
        ''api_key'' = Some (JStr ''key-alice'')"
    by (simp add: ex_key_def)
  have b: "body ?rq = Some [(''device'', ''tablet'')]"
      "map_of [(''device'', ''tablet'')] ''device'' = Some ''tablet''"
    by (simp_all add: ex_post_with_key_def)
  note C = issuing_keys_one_per_device[OF inv, of ex_env "''new''" "ex_user 1 ''alice@example.com''"
      "Some ''phone''" ?rq 1000, THEN conjunct2, THEN conjunct2, THEN conjunct2, THEN conjunct2,
      THEN conjunct2, THEN conjunct2, THEN conjunct2, THEN conjunct1, rule_format,
      of ?s1 ?g "[(''device'', ''tablet'')]" "''tablet''"]
  note M = issuing_keys_one_per_device[OF inv, of ex_env "''new''" "ex_user 1 ''alice@example.com''"
      "Some ''phone''" ?rqm 1000, THEN conjunct2, THEN conjunct2, THEN conjunct2, THEN conjunct2,
      THEN conjunct2, THEN conjunct2, THEN conjunct2, THEN conjunct2, rule_format,
      of "[(''mfa_token'', ''123456''), (''mfa_key'', ''sig:3''), (''device'', ''phone'')]"
        "''3''" 3 ?carol "ex_key 3 3 ''key-carol'' ''phone''"]
  have 3: "snd (auth_mfa ex_env ''new'' ?rqm ex_store)
       = Response [(''name'', JStr []), (''email'', JStr ''carol@example.com''),
                   (''api_key'', JStr ''key-carol'')] 200"
    using M by (simp add: ex_defs orm_defs truthy_def name_or_empty_def)
  from C[OF conjI[OF a conjI[OF b]]] ks
  have 2: "snd (create_api_key ex_env ''new'' 1000 ?rq ex_store) = Response [(''api_key'', JStr ''new'')] 201
   \<and> map (\<lambda>k. (key_user_id k, key_name k, key_code k))
        (api_keys (committed (fst (create_api_key ex_env ''new'' 1000 ?rq ex_store))))
       = [(1, Some ''phone'', ''key-alice''), (4, Some ''laptop'', ''key-dave''),
          (3, Some ''phone'', ''key-carol''), (6, Some ''phone'', ''key-frank''),
          (1, Some ''tablet'', ''new'')]"
    by (simp add: ex_user_def)
  from inv 1 2 3 show ?thesis by blast
qed

section \<open>Logging in twice\<close>

lemma emit_tables [simp]:
  "live (emit e s) = live s" "committed (emit e s) = committed s"
  by (simp_all add: emit_def)

lemma new_session_tables [simp]:
  "live (new_session s) = committed s" "committed (new_session s) = committed s"
  by (simp_all add: new_session_def)

lemma auth_login_success:
  assumes wf: "body rq = Some data" "truthy (map_of data ''email'')"
      "truthy (map_of data ''password'')" "truthy (map_of data ''device'')"
    and usr: "User_get_by_or (users (live s)) (sanitize_email E (map_of data ''email''))
        (canonicalize_email E (sanitize_email E (map_of data ''email''))) = Some u"
      "check_password E u (map_of data ''password'')" "\<not> disabled u" "activated u"
      "\<not> enable_otp u"
    and ok: "delete_on u = None" "\<not> fido_enabled E u"
  shows "auth_login E rnd rq s =
           (fst (auth_payload E rnd u (map_of data ''device'') (emit (LoginEvent Success) s)),
            Response (snd (auth_payload E rnd u (map_of data ''device'') (emit (LoginEvent Success) s)))
              200)"
proof -
  have ne: "data \<noteq> []" using wf(2) by (auto simp: truthy_def)
  show ?thesis using wf ne usr ok by (simp add: auth_login_def Let_def split_beta)
qed

text \<open>The login of such a user, by the two cases of the lookup of the key.\<close>

lemma auth_login_found:
  assumes wf: "body rq = Some data" "truthy (map_of data ''email'')"
      "truthy (map_of data ''password'')" "truthy (map_of data ''device'')"
    and usr: "User_get_by_or (users (live s)) (sanitize_email E (map_of data ''email''))
        (canonicalize_email E (sanitize_email E (map_of data ''email''))) = Some u"
      "check_password E u (map_of data ''password'')" "\<not> disabled u" "activated u"
      "\<not> enable_otp u"
    and ok: "delete_on u = None" "\<not> fido_enabled E u"
    and k: "ApiKey_get_by (api_keys (live s)) (uid u) (map_of data ''device'') = Some k"
  shows "auth_login E rnd rq s =
           (emit (LoginUser (uid u)) (emit (LoginEvent Success) s),
            Response [(''name'', JStr (name_or_empty u)), (''email'', JStr (email u)),
              (''mfa_enabled'', JBool False), (''mfa_key'', JNull),
              (''api_key'', JStr (key_code k))] 200)"
proof -
  from k have "ApiKey_get_by (api_keys (live (emit (LoginEvent Success) s))) (uid u)
      (map_of data ''device'') = Some k" by simp
  from auth_payload_found[OF usr(5) this] show ?thesis
    by (simp add: auth_login_success[OF wf usr ok])
qed

lemma auth_login_created:
  assumes wf: "body rq = Some data" "truthy (map_of data ''email'')"
      "truthy (map_of data ''password'')" "truthy (map_of data ''device'')"
    and usr: "User_get_by_or (users (live s)) (sanitize_email E (map_of data ''email''))
        (canonicalize_email E (sanitize_email E (map_of data ''email''))) = Some u"
      "check_password E u (map_of data ''password'')" "\<not> disabled u" "activated u"
      "\<not> enable_otp u"
    and ok: "delete_on u = None" "\<not> fido_enabled E u"
    and k: "ApiKey_get_by (api_keys (live s)) (uid u) (map_of data ''device'') = None"
  shows "auth_login E rnd rq s =
           (emit (LoginUser (uid u)) (Session_commit
              (fst (ApiKey_create rnd (uid u) (map_of data ''device'') (emit (LoginEvent Success) s)))),
            Response [(''name'', JStr (name_or_empty u)), (''email'', JStr (email u)),
              (''mfa_enabled'', JBool False), (''mfa_key'', JNull), (''api_key'', JStr rnd)] 200)"
proof -
  from k have "ApiKey_get_by (api_keys (live (emit (LoginEvent Success) s))) (uid u)
      (map_of data ''device'') = None" by simp
  from auth_payload_created[OF usr(5) this] show ?thesis
    by (simp add: auth_login_success[OF wf usr ok])
qed

lemma ApiKey_create_tables [simp]:
  "users (live (fst (ApiKey_create rnd i n s))) = users (live s)"
  "activations (live (fst (ApiKey_create rnd i n s))) = activations (live s)"
  by (simp_all add: ApiKey_create_def Let_def)

lemma Session_commit_tables [simp]:
  "live (Session_commit s) = live s" "committed (Session_commit s) = live s"
  by (simp_all add: Session_commit_def)

lemma auth_login_twice:
  assumes clean: "live s = committed s"
    and wf: "body rq = Some data" "truthy (map_of data ''email'')"
      "truthy (map_of data ''password'')" "truthy (map_of data ''device'')"
    and usr: "User_get_by_or (users (live s)) (sanitize_email E (map_of data ''email''))
        (canonicalize_email E (sanitize_email E (map_of data ''email''))) = Some u"
      "check_password E u (map_of data ''password'')" "\<not> disabled u" "activated u"
      "\<not> enable_otp u"
    and ok: "delete_on u = None" "\<not> fido_enabled E u"
  shows "(case ApiKey_get_by (api_keys (committed s)) (uid u) (map_of data ''device'') of
            Some k \<Rightarrow>
              snd (auth_login E rnd rq s)
                = Response [(''name'', JStr (name_or_empty u)), (''email'', JStr (email u)),
                    (''mfa_enabled'', JBool False), (''mfa_key'', JNull),
                    (''api_key'', JStr (key_code k))] 200
            \<and> committed (fst (auth_login E rnd rq s)) = committed s
          | None \<Rightarrow>
              snd (auth_login E rnd rq s)
                = Response [(''name'', JStr (name_or_empty u)), (''email'', JStr (email u)),
                    (''mfa_enabled'', JBool False), (''mfa_key'', JNull),
                    (''api_key'', JStr rnd)] 200
            \<and> committed (fst (auth_login E rnd rq s))
                = (committed s)\<lparr>api_keys := api_keys (committed s) @
                    [\<lparr>kid = next_id (map kid (api_keys (committed s))), key_user_id = uid u,
                      key_code = rnd, key_name = map_of data ''device'', last_used = None,
                      key_times = 0, sudo_mode_at = None\<rparr>]\<rparr>)
       \<and> snd (auth_login E rnd' rq (new_session (fst (auth_login E rnd rq s))))
           = snd (auth_login E rnd rq s)
       \<and> committed (fst (auth_login E rnd' rq (new_session (fst (auth_login E rnd rq s)))))
           = committed (fst (auth_login E rnd rq s))"
proof (cases "ApiKey_get_by (api_keys (live s)) (uid u) (map_of data ''device'')")
  case None
  let ?d = "map_of data ''device''"
  let ?k = "\<lparr>kid = next_id (map kid (api_keys (live s))), key_user_id = uid u,
       key_code = rnd, key_name = ?d, last_used = None, key_times = 0, sudo_mode_at = None\<rparr>"
  let ?s1 = "fst (auth_login E rnd rq s)"
  note first = auth_login_created[OF wf usr ok None, of rnd]
  have c1: "committed ?s1 = (live s)\<lparr>api_keys := api_keys (live s) @ [?k]\<rparr>"
    by (simp add: first ApiKey_create_def Let_def emit_def)
  have usr2: "User_get_by_or (users (live (new_session ?s1))) (sanitize_email E (map_of data ''email''))
        (canonicalize_email E (sanitize_email E (map_of data ''email''))) = Some u"
    using usr(1) by (simp add: c1)
  have k2: "ApiKey_get_by (api_keys (live (new_session ?s1))) (uid u) ?d = Some ?k"
    using ApiKey_get_by_append[OF None, of ?k] by (simp add: c1)
  note second = auth_login_found[OF wf usr2 usr(2-5) ok k2, of rnd']
  show ?thesis
    using None clean by (simp add: second c1) (simp add: first)
next
  case (Some k)
  let ?s1 = "fst (auth_login E rnd rq s)"
  note first = auth_login_found[OF wf usr ok Some, of rnd]
  have c1: "committed ?s1 = live s" using clean by (simp add: first)
  have usr2: "User_get_by_or (users (live (new_session ?s1))) (sanitize_email E (map_of data ''email''))
        (canonicalize_email E (sanitize_email E (map_of data ''email''))) = Some u"
    using usr(1) by (simp add: c1)
  have k2: "ApiKey_get_by (api_keys (live (new_session ?s1))) (uid u) (map_of data ''device'') = Some k"
    using Some by (simp add: c1)
  note second = auth_login_found[OF wf usr2 usr(2-5) ok k2, of rnd']
  show ?thesis
    using Some clean by (simp add: second c1) (simp add: first)
qed


lemma auth_login_refused:
  assumes wf: "body rq = Some data" "truthy (map_of data ''email'')"
      "truthy (map_of data ''password'')" "truthy (map_of data ''device'')"
    and usr: "User_get_by_or (users (live s)) (sanitize_email E (map_of data ''email''))
        (canonicalize_email E (sanitize_email E (map_of data ''email''))) = Some u"
      "check_password E u (map_of data ''password'')" "\<not> disabled u" "activated u"
      "\<not> enable_otp u"
    and no: "delete_on u \<noteq> None \<or> fido_enabled E u"
  shows "auth_login E rnd rq s =
           (if delete_on u \<noteq> None
            then (emit (LoginEvent Scheduled_to_be_deleted) s,
                  Response (jsonify_error ''Account scheduled for deletion'') 400)
            else (s, Response (jsonify_error
                    ''FIDO authentication is not supported for this application'') 403))"
proof -
  have ne: "data \<noteq> []" using wf(2) by (auto simp: truthy_def)
  show ?thesis using wf ne usr no by (auto simp: auth_login_def Let_def)
qed

lemma auth_login_refused_twice:
  assumes clean: "live s = committed s"
    and wf: "body rq = Some data" "truthy (map_of data ''email'')"
      "truthy (map_of data ''password'')" "truthy (map_of data ''device'')"
    and usr: "User_get_by_or (users (live s)) (sanitize_email E (map_of data ''email''))
        (canonicalize_email E (sanitize_email E (map_of data ''email''))) = Some u"
      "check_password E u (map_of data ''password'')" "\<not> disabled u" "activated u"
      "\<not> enable_otp u"
    and no: "delete_on u \<noteq> None \<or> fido_enabled E u"
  shows "snd (auth_login E rnd rq s)
           = (if delete_on u \<noteq> None
              then Response (jsonify_error ''Account scheduled for deletion'') 400
              else Response (jsonify_error
                     ''FIDO authentication is not supported for this application'') 403)
       \<and> committed (fst (auth_login E rnd rq s)) = committed s
       \<and> snd (auth_login E rnd' rq (new_session (fst (auth_login E rnd rq s))))
           = snd (auth_login E rnd rq s)
       \<and> committed (fst (auth_login E rnd' rq (new_session (fst (auth_login E rnd rq s)))))
           = committed s"
proof -
  let ?s1 = "fst (auth_login E rnd rq s)"
  note first = auth_login_refused[OF wf usr no, of rnd]
  have c1: "committed ?s1 = committed s" by (simp add: first)
  have usr2: "User_get_by_or (users (live (new_session ?s1))) (sanitize_email E (map_of data ''email''))
        (canonicalize_email E (sanitize_email E (map_of data ''email''))) = Some u"
    using usr(1) clean by (simp add: c1)
  note second = auth_login_refused[OF wf usr2 usr(2-5) no, of rnd']
  show ?thesis by (simp add: second c1) (simp add: first)
qed

lemma auth_mfa_twice:
  assumes clean: "live s = committed s"
    and wf: "body rqm = Some datam" "truthy (map_of datam ''mfa_token'')"
      "truthy (map_of datam ''mfa_key'')" "truthy (map_of datam ''device'')"
    and tok: "signer_unsign E (map_of datam ''mfa_key'') = Some p" "py_int E p = Some i"
    and usr: "User_get (users (live s)) i = Some v" "enable_otp v"
    and otp: "totp_verify E (otp_secret v) (map_of datam ''mfa_token'') 2"
  shows "(case ApiKey_get_by (api_keys (committed s)) (uid v) (map_of datam ''device'') of
            Some k \<Rightarrow>
              snd (auth_mfa E rnd rqm s)
                = Response [(''name'', JStr (name_or_empty v)), (''email'', JStr (email v)),
                    (''api_key'', JStr (key_code k))] 200
            \<and> committed (fst (auth_mfa E rnd rqm s)) = committed s
          | None \<Rightarrow>
              snd (auth_mfa E rnd rqm s)
                = Response [(''name'', JStr (name_or_empty v)), (''email'', JStr (email v)),
                    (''api_key'', JStr rnd)] 200
            \<and> committed (fst (auth_mfa E rnd rqm s))
                = (committed s)\<lparr>api_keys := api_keys (committed s) @
                    [\<lparr>kid = next_id (map kid (api_keys (committed s))), key_user_id = uid v,
                      key_code = rnd, key_name = map_of datam ''device'', last_used = None,
                      key_times = 0, sudo_mode_at = None\<rparr>]\<rparr>)
       \<and> snd (auth_mfa E rnd' rqm (new_session (fst (auth_mfa E rnd rqm s))))
           = snd (auth_mfa E rnd rqm s)
       \<and> committed (fst (auth_mfa E rnd' rqm (new_session (fst (auth_mfa E rnd rqm s)))))
           = committed (fst (auth_mfa E rnd rqm s))"
proof (cases "ApiKey_get_by (api_keys (live s)) (uid v) (map_of datam ''device'')")
  case None
  let ?d = "map_of datam ''device''"
  let ?k = "\<lparr>kid = next_id (map kid (api_keys (live s))), key_user_id = uid v,
       key_code = rnd, key_name = ?d, last_used = None, key_times = 0, sudo_mode_at = None\<rparr>"
  let ?s1 = "fst (auth_mfa E rnd rqm s)"
  have first: "auth_mfa E rnd rqm s =
      (emit (LoginUser (uid v)) (Session_commit (fst (ApiKey_create rnd (uid v) ?d s))),
       Response [(''name'', JStr (name_or_empty v)), (''email'', JStr (email v)),
                 (''api_key'', JStr rnd)] 200)"
    using auth_mfa_verified[OF wf tok usr otp, of rnd] None by simp
  have c1: "committed ?s1 = (live s)\<lparr>api_keys := api_keys (live s) @ [?k]\<rparr>"
    by (simp add: first ApiKey_create_def Let_def)
  have usr2: "User_get (users (live (new_session ?s1))) i = Some v"
    using usr(1) by (simp add: c1)
  have k2: "ApiKey_get_by (api_keys (live (new_session ?s1))) (uid v) ?d = Some ?k"
    using ApiKey_get_by_append[OF None, of ?k] by (simp add: c1)
  have second: "auth_mfa E rnd' rqm (new_session ?s1) =
      (emit (LoginUser (uid v)) (new_session ?s1),
       Response [(''name'', JStr (name_or_empty v)), (''email'', JStr (email v)),
                 (''api_key'', JStr rnd)] 200)"
    using auth_mfa_verified[OF wf tok usr2 usr(2) otp, of rnd'] k2 by simp
  show ?thesis
    using None clean by (simp add: second c1) (simp add: first)
next
  case (Some k)
  let ?d = "map_of datam ''device''"
  let ?s1 = "fst (auth_mfa E rnd rqm s)"
  have first: "auth_mfa E rnd rqm s =
      (emit (LoginUser (uid v)) s,
       Response [(''name'', JStr (name_or_empty v)), (''email'', JStr (email v)),
                 (''api_key'', JStr (key_code k))] 200)"
    using auth_mfa_verified[OF wf tok usr otp, of rnd] Some by simp
  have c1: "committed ?s1 = live s" using clean by (simp add: first)
  have usr2: "User_get (users (live (new_session ?s1))) i = Some v"
    using usr(1) by (simp add: c1)
  have k2: "ApiKey_get_by (api_keys (live (new_session ?s1))) (uid v) ?d = Some k"
    using Some by (simp add: c1)
  have second: "auth_mfa E rnd' rqm (new_session ?s1) =
      (emit (LoginUser (uid v)) (new_session ?s1),
       Response [(''name'', JStr (name_or_empty v)), (''email'', JStr (email v)),
                 (''api_key'', JStr (key_code k))] 200)"
    using auth_mfa_verified[OF wf tok usr2 usr(2) otp, of rnd'] k2 by simp
  show ?thesis
    using Some clean by (simp add: second c1) (simp add: first)
qed

text \<open>
  C8, as the code has it. Every request runs on a session of its own, starting from the
  committed tables. For a user who is activated, not disabled and without MFA, who is not
  scheduled for deletion and not a FIDO user, and whose password is right, \<open>auth_login\<close>
  answers 200 with the code of the key for the device: the key that is committed for
  the pair, the tables left as they are, or else a new key that it commits, with the
  code of the random source, no use and no sudo mode. A second login, on a new session
  and whatever the random source gives then, answers the same code and leaves the
  committed tables as the first left them. \<open>auth_mfa\<close> does the same for a user with MFA
  whose key and token verify. When the user is scheduled for deletion or is a FIDO user,
  the login is refused, with 400 or 403, both times, and no key is made.
\<close>

theorem repeated_login_same_key:
  assumes clean: "live s = committed s"
  shows "(\<forall>data u. body rq = Some data \<and> truthy (map_of data ''email'')
              \<and> truthy (map_of data ''password'') \<and> truthy (map_of data ''device'')
              \<and> User_get_by_or (users (live s)) (sanitize_email E (map_of data ''email''))
                    (canonicalize_email E (sanitize_email E (map_of data ''email''))) = Some u
              \<and> check_password E u (map_of data ''password'') \<and> \<not> disabled u \<and> activated u
              \<and> \<not> enable_otp u
              \<and> delete_on u = None \<and> \<not> fido_enabled E u \<longrightarrow>
         (case ApiKey_get_by (api_keys (committed s)) (uid u) (map_of data ''device'') of
            Some k \<Rightarrow>
              snd (auth_login E rnd rq s)
                = Response [(''name'', JStr (name_or_empty u)), (''email'', JStr (email u)),
                    (''mfa_enabled'', JBool False), (''mfa_key'', JNull),
                    (''api_key'', JStr (key_code k))] 200
            \<and> committed (fst (auth_login E rnd rq s)) = committed s
          | None \<Rightarrow>
              snd (auth_login E rnd rq s)
                = Response [(''name'', JStr (name_or_empty u)), (''email'', JStr (email u)),
                    (''mfa_enabled'', JBool False), (''mfa_key'', JNull),
                    (''api_key'', JStr rnd)] 200
            \<and> committed (fst (auth_login E rnd rq s))
                = (committed s)\<lparr>api_keys := api_keys (committed s) @
                    [\<lparr>kid = next_id (map kid (api_keys (committed s))), key_user_id = uid u,
                      key_code = rnd, key_name = map_of data ''device'', last_used = None,
                      key_times = 0, sudo_mode_at = None\<rparr>]\<rparr>)
       \<and> snd (auth_login E rnd' rq (new_session (fst (auth_login E rnd rq s))))
           = snd (auth_login E rnd rq s)
       \<and> committed (fst (auth_login E rnd' rq (new_session (fst (auth_login E rnd rq s)))))
           = committed (fst (auth_login E rnd rq s)))
   \<and> (\<forall>data u. body rq = Some data \<and> truthy (map_of data ''email'')
              \<and> truthy (map_of data ''password'') \<and> truthy (map_of data ''device'')
              \<and> User_get_by_or (users (live s)) (sanitize_email E (map_of data ''email''))
                    (canonicalize_email E (sanitize_email E (map_of data ''email''))) = Some u
              \<and> check_password E u (map_of data ''password'') \<and> \<not> disabled u \<and> activated u
              \<and> \<not> enable_otp u
              \<and> (delete_on u \<noteq> None \<or> fido_enabled E u) \<longrightarrow>
         snd (auth_login E rnd rq s)
           = (if delete_on u \<noteq> None
              then Response (jsonify_error ''Account scheduled for deletion'') 400
              else Response (jsonify_error
                     ''FIDO authentication is not supported for this application'') 403)
       \<and> committed (fst (auth_login E rnd rq s)) = committed s
       \<and> snd (auth_login E rnd' rq (new_session (fst (auth_login E rnd rq s))))
           = snd (auth_login E rnd rq s)
       \<and> committed (fst (auth_login E rnd' rq (new_session (fst (auth_login E rnd rq s)))))
           = committed s)
   \<and> (\<forall>datam p i v. body rqm = Some datam \<and> truthy (map_of datam ''mfa_token'')
              \<and> truthy (map_of datam ''mfa_key'') \<and> truthy (map_of datam ''device'')
              \<and> signer_unsign E (map_of datam ''mfa_key'') = Some p \<and> py_int E p = Some i
              \<and> User_get (users (live s)) i = Some v \<and> enable_otp v
              \<and> totp_verify E (otp_secret v) (map_of datam ''mfa_token'') 2 \<longrightarrow>
         (case ApiKey_get_by (api_keys (committed s)) (uid v) (map_of datam ''device'') of
            Some k \<Rightarrow>
              snd (auth_mfa E rnd rqm s)
                = Response [(''name'', JStr (name_or_empty v)), (''email'', JStr (email v)),
                    (''api_key'', JStr (key_code k))] 200
            \<and> committed (fst (auth_mfa E rnd rqm s)) = committed s
          | None \<Rightarrow>
              snd (auth_mfa E rnd rqm s)
                = Response [(''name'', JStr (name_or_empty v)), (''email'', JStr (email v)),
                    (''api_key'', JStr rnd)] 200
            \<and> committed (fst (auth_mfa E rnd rqm s))
                = (committed s)\<lparr>api_keys := api_keys (committed s) @
                    [\<lparr>kid = next_id (map kid (api_keys (committed s))), key_user_id = uid v,
                      key_code = rnd, key_name = map_of datam ''device'', last_used = None,
                      key_times = 0, sudo_mode_at = None\<rparr>]\<rparr>)
       \<and> snd (auth_mfa E rnd' rqm (new_session (fst (auth_mfa E rnd rqm s))))
           = snd (auth_mfa E rnd rqm s)
       \<and> committed (fst (auth_mfa E rnd' rqm (new_session (fst (auth_mfa E rnd rqm s)))))
           = committed (fst (auth_mfa E rnd rqm s)))"
proof -
  have A: "(case ApiKey_get_by (api_keys (committed s)) (uid u) (map_of data ''device'') of
            Some k \<Rightarrow>
              snd (auth_login E rnd rq s)
                = Response [(''name'', JStr (name_or_empty u)), (''email'', JStr (email u)),
                    (''mfa_enabled'', JBool False), (''mfa_key'', JNull),
                    (''api_key'', JStr (key_code k))] 200
            \<and> committed (fst (auth_login E rnd rq s)) = committed s
          | None \<Rightarrow>
              snd (auth_login E rnd rq s)
                = Response [(''name'', JStr (name_or_empty u)), (''email'', JStr (email u)),
                    (''mfa_enabled'', JBool False), (''mfa_key'', JNull),
                    (''api_key'', JStr rnd)] 200
            \<and> committed (fst (auth_login E rnd rq s))
                = (committed s)\<lparr>api_keys := api_keys (committed s) @
                    [\<lparr>kid = next_id (map kid (api_keys (committed s))), key_user_id = uid u,
                      key_code = rnd, key_name = map_of data ''device'', last_used = None,
                      key_times = 0, sudo_mode_at = None\<rparr>]\<rparr>)
       \<and> snd (auth_login E rnd' rq (new_session (fst (auth_login E rnd rq s))))
           = snd (auth_login E rnd rq s)
       \<and> committed (fst (auth_login E rnd' rq (new_session (fst (auth_login E rnd rq s)))))
           = committed (fst (auth_login E rnd rq s))"
    if H: "body rq = Some data \<and> truthy (map_of data ''email'')
              \<and> truthy (map_of data ''password'') \<and> truthy (map_of data ''device'')
              \<and> User_get_by_or (users (live s)) (sanitize_email E (map_of data ''email''))
                    (canonicalize_email E (sanitize_email E (map_of data ''email''))) = Some u
              \<and> check_password E u (map_of data ''password'') \<and> \<not> disabled u \<and> activated u
              \<and> \<not> enable_otp u
              \<and> delete_on u = None \<and> \<not> fido_enabled E u" for data u
  proof -
    from H have h: "body rq = Some data" "truthy (map_of data ''email'')"
      "truthy (map_of data ''password'')" "truthy (map_of data ''device'')"
      "User_get_by_or (users (live s)) (sanitize_email E (map_of data ''email''))
        (canonicalize_email E (sanitize_email E (map_of data ''email''))) = Some u"
      "check_password E u (map_of data ''password'')" "\<not> disabled u" "activated u"
      "\<not> enable_otp u" "delete_on u = None" "\<not> fido_enabled E u"
      by blast+
    from auth_login_twice[OF clean h, of rnd rnd'] show ?thesis .
  qed
  have B: "snd (auth_login E rnd rq s)
           = (if delete_on u \<noteq> None
              then Response (jsonify_error ''Account scheduled for deletion'') 400
              else Response (jsonify_error
                     ''FIDO authentication is not supported for this application'') 403)
       \<and> committed (fst (auth_login E rnd rq s)) = committed s
       \<and> snd (auth_login E rnd' rq (new_session (fst (auth_login E rnd rq s))))
           = snd (auth_login E rnd rq s)
       \<and> committed (fst (auth_login E rnd' rq (new_session (fst (auth_login E rnd rq s)))))
           = committed s"
    if H: "body rq = Some data \<and> truthy (map_of data ''email'')
              \<and> truthy (map_of data ''password'') \<and> truthy (map_of data ''device'')
              \<and> User_get_by_or (users (live s)) (sanitize_email E (map_of data ''email''))
                    (canonicalize_email E (sanitize_email E (map_of data ''email''))) = Some u
              \<and> check_password E u (map_of data ''password'') \<and> \<not> disabled u \<and> activated u
              \<and> \<not> enable_otp u
              \<and> (delete_on u \<noteq> None \<or> fido_enabled E u)" for data u
  proof -
    from H have h: "body rq = Some data" "truthy (map_of data ''email'')"
      "truthy (map_of data ''password'')" "truthy (map_of data ''device'')"
      "User_get_by_or (users (live s)) (sanitize_email E (map_of data ''email''))
        (canonicalize_email E (sanitize_email E (map_of data ''email''))) = Some u"
      "check_password E u (map_of data ''password'')" "\<not> disabled u" "activated u"
      "\<not> enable_otp u" "delete_on u \<noteq> None \<or> fido_enabled E u"
      by blast+
    from auth_login_refused_twice[OF clean h, of rnd rnd'] show ?thesis .
  qed
  have C: "(case ApiKey_get_by (api_keys (committed s)) (uid v) (map_of datam ''device'') of
            Some k \<Rightarrow>
              snd (auth_mfa E rnd rqm s)
                = Response [(''name'', JStr (name_or_empty v)), (''email'', JStr (email v)),
                    (''api_key'', JStr (key_code k))] 200
            \<and> committed (fst (auth_mfa E rnd rqm s)) = committed s
          | None \<Rightarrow>
              snd (auth_mfa E rnd rqm s)
                = Response [(''name'', JStr (name_or_empty v)), (''email'', JStr (email v)),
                    (''api_key'', JStr rnd)] 200
            \<and> committed (fst (auth_mfa E rnd rqm s))
                = (committed s)\<lparr>api_keys := api_keys (committed s) @
                    [\<lparr>kid = next_id (map kid (api_keys (committed s))), key_user_id = uid v,
                      key_code = rnd, key_name = map_of datam ''device'', last_used = None,
                      key_times = 0, sudo_mode_at = None\<rparr>]\<rparr>)
       \<and> snd (auth_mfa E rnd' rqm (new_session (fst (auth_mfa E rnd rqm s))))
           = snd (auth_mfa E rnd rqm s)
       \<and> committed (fst (auth_mfa E rnd' rqm (new_session (fst (auth_mfa E rnd rqm s)))))
           = committed (fst (auth_mfa E rnd rqm s))"
    if H: "body rqm = Some datam \<and> truthy (map_of datam ''mfa_token'')
              \<and> truthy (map_of datam ''mfa_key'') \<and> truthy (map_of datam ''device'')
              \<and> signer_unsign E (map_of datam ''mfa_key'') = Some p \<and> py_int E p = Some i
              \<and> User_get (users (live s)) i = Some v \<and> enable_otp v
              \<and> totp_verify E (otp_secret v) (map_of datam ''mfa_token'') 2" for datam p i v
  proof -
    from H have h: "body rqm = Some datam" "truthy (map_of datam ''mfa_token'')"
      "truthy (map_of datam ''mfa_key'')" "truthy (map_of datam ''device'')"
      "signer_unsign E (map_of datam ''mfa_key'') = Some p" "py_int E p = Some i"
      "User_get (users (live s)) i = Some v" "enable_otp v"
      "totp_verify E (otp_secret v) (map_of datam ''mfa_token'') 2"
      by blast+
    from auth_mfa_twice[OF clean h, of rnd rnd'] show ?thesis .
  qed
  from A B C show ?thesis by blast
qed

text \<open>
  C8 as stated fails: frank is activated, not disabled and without MFA, and his
  password is right, but he is scheduled for deletion; his login is answered 400 and
  returns no key code, and no key is made for the device.
\<close>

theorem repeated_login_same_key_counterexample:
  "User_get_by_or (users (live ex_store)) (Some ''frank@example.com'') (Some ''frank@example.com'')
     = Some ((ex_user 6 ''frank@example.com'')\<lparr>delete_on := Some 100\<rparr>)
   \<and> activated ((ex_user 6 ''frank@example.com'')\<lparr>delete_on := Some 100\<rparr>)
   \<and> \<not> disabled ((ex_user 6 ''frank@example.com'')\<lparr>delete_on := Some 100\<rparr>)
   \<and> \<not> enable_otp ((ex_user 6 ''frank@example.com'')\<lparr>delete_on := Some 100\<rparr>)
   \<and> check_password ex_env ((ex_user 6 ''frank@example.com'')\<lparr>delete_on := Some 100\<rparr>)
        (Some ''hunter22'')
   \<and> snd (auth_login ex_env ''new''
          (ex_post [(''email'', ''frank@example.com''), (''password'', ''hunter22''), (''device'', ''tablet'')])
          ex_store)
       = Response (jsonify_error ''Account scheduled for deletion'') 400
   \<and> ApiKey_get_by (api_keys (committed (fst (auth_login ex_env ''new''
          (ex_post [(''email'', ''frank@example.com''), (''password'', ''hunter22''), (''device'', ''tablet'')])
          ex_store)))) 6 (Some ''tablet'')
       = None"
  by (simp add: auth_login_def ex_defs orm_defs truthy_def Let_def)

theorem repeated_login_same_key_witness:
  "live ex_store = committed ex_store
   \<and> snd (auth_login ex_env ''first''
          (ex_post [(''email'', ''alice@example.com''), (''password'', ''hunter22''), (''device'', ''tablet'')])
          ex_store)
       = Response [(''name'', JStr []), (''email'', JStr ''alice@example.com''),
           (''mfa_enabled'', JBool False), (''mfa_key'', JNull), (''api_key'', JStr ''first'')] 200
   \<and> snd (auth_login ex_env ''second''
          (ex_post [(''email'', ''alice@example.com''), (''password'', ''hunter22''), (''device'', ''tablet'')])
          (new_session (fst (auth_login ex_env ''first''
             (ex_post [(''email'', ''alice@example.com''), (''password'', ''hunter22''), (''device'', ''tablet'')])
             ex_store))))
       = Response [(''name'', JStr []), (''email'', JStr ''alice@example.com''),
           (''mfa_enabled'', JBool False), (''mfa_key'', JNull), (''api_key'', JStr ''first'')] 200
   \<and> snd (auth_login ex_env ''second''
          (ex_post [(''email'', ''frank@example.com''), (''password'', ''hunter22''), (''device'', ''tablet'')])
          (new_session (fst (auth_login ex_env ''first''
             (ex_post [(''email'', ''frank@example.com''), (''password'', ''hunter22''), (''device'', ''tablet'')])
             ex_store))))
       = Response (jsonify_error ''Account scheduled for deletion'') 400
   \<and> snd (auth_mfa ex_env ''first''
          (ex_post [(''mfa_token'', ''123456''), (''mfa_key'', ''sig:3''), (''device'', ''tablet'')])
          ex_store)
       = Response [(''name'', JStr []), (''email'', JStr ''carol@example.com''),
           (''api_key'', JStr ''first'')] 200
   \<and> snd (auth_mfa ex_env ''second''
          (ex_post [(''mfa_token'', ''123456''), (''mfa_key'', ''sig:3''), (''device'', ''tablet'')])
          (new_session (fst (auth_mfa ex_env ''first''
             (ex_post [(''mfa_token'', ''123456''), (''mfa_key'', ''sig:3''), (''device'', ''tablet'')])
             ex_store))))
       = Response [(''name'', JStr []), (''email'', JStr ''carol@example.com''),
           (''api_key'', JStr ''first'')] 200"
proof -
  let ?da = "[(''email'', ''alice@example.com''), (''password'', ''hunter22''), (''device'', ''tablet'')]"
  let ?df = "[(''email'', ''frank@example.com''), (''password'', ''hunter22''), (''device'', ''tablet'')]"
  let ?dm = "[(''mfa_token'', ''123456''), (''mfa_key'', ''sig:3''), (''device'', ''tablet'')]"
  let ?frank = "(ex_user 6 ''frank@example.com'')\<lparr>delete_on := Some 100\<rparr>"
  let ?carol = "(ex_user 3 ''carol@example.com'')\<lparr>enable_otp := True, otp_secret := Some ''JBSWY3DP''\<rparr>"
  have clean: "live ex_store = committed ex_store" by (simp add: ex_store_def)
  note T = repeated_login_same_key[where s = ex_store and E = ex_env and rnd = "''first''"
      and rnd' = "''second''" and rqm = "ex_post ?dm", OF clean]
  note A = T[where rq = "ex_post ?da", THEN conjunct1, rule_format,
      of ?da "ex_user 1 ''alice@example.com''"]
  note B = T[where rq = "ex_post ?df", THEN conjunct2, THEN conjunct1, rule_format, of ?df ?frank]
  note C = T[where rq = "ex_post ?da", THEN conjunct2, THEN conjunct2, rule_format,
      of ?dm "''3''" 3 ?carol]
  have 1: "snd (auth_login ex_env ''first'' (ex_post ?da) ex_store)
       = Response [(''name'', JStr []), (''email'', JStr ''alice@example.com''),
           (''mfa_enabled'', JBool False), (''mfa_key'', JNull), (''api_key'', JStr ''first'')] 200
     \<and> snd (auth_login ex_env ''second'' (ex_post ?da)
          (new_session (fst (auth_login ex_env ''first'' (ex_post ?da) ex_store))))
       = Response [(''name'', JStr []), (''email'', JStr ''alice@example.com''),
           (''mfa_enabled'', JBool False), (''mfa_key'', JNull), (''api_key'', JStr ''first'')] 200"
    using A by (simp add: ex_defs orm_defs truthy_def name_or_empty_def)
  have 2: "snd (auth_login ex_env ''second'' (ex_post ?df)
          (new_session (fst (auth_login ex_env ''first'' (ex_post ?df) ex_store))))
       = Response (jsonify_error ''Account scheduled for deletion'') 400"
    using B by (simp add: ex_defs orm_defs truthy_def)
  have 3: "snd (auth_mfa ex_env ''first'' (ex_post ?dm) ex_store)
       = Response [(''name'', JStr []), (''email'', JStr ''carol@example.com''),
           (''api_key'', JStr ''first'')] 200
     \<and> snd (auth_mfa ex_env ''second'' (ex_post ?dm)
          (new_session (fst (auth_mfa ex_env ''first'' (ex_post ?dm) ex_store))))
       = Response [(''name'', JStr []), (''email'', JStr ''carol@example.com''),
           (''api_key'', JStr ''first'')] 200"
    using C by (simp add: ex_defs orm_defs truthy_def name_or_empty_def)
  from clean 1 2 3 show ?thesis by blast
qed

end
